theory Spec2Isabelle
  imports Complex_Main
begin

section \<open>Data model\<close>

text \<open>
  The solver of \<^verbatim>\<open>solver-multichunk.py\<close> works on numpy arrays of shape
  \<^verbatim>\<open>[T, F, A, A, 2, 2]\<close> (time, frequency, antenna p, antenna q, and a 2x2 block of
  correlations). The two trailing axes always have length 2, so a block is a value of
  the type \<open>'a m22\<close>; the leading axes are nested lists. Python floats and complex
  numbers are read as the reals and the complex numbers (exact arithmetic).
\<close>

datatype 'a m22 = M22 (m00: 'a) (m01: 'a) (m10: 'a) (m11: 'a)

text \<open>An axis of length 4 (a 2x2 block reshaped to \<^verbatim>\<open>[4]\<close>), and a 2x1 column.\<close>

datatype 'a v4 = V4 (v4_0: 'a) (v4_1: 'a) (v4_2: 'a) (v4_3: 'a)

datatype 'a v2 = V2 (v2_0: 'a) (v2_1: 'a)

type_synonym vis = "complex m22 list list list list"
type_synonym gains = "complex m22 list list list"
type_synonym phases = "real v2 list list list"

definition map3 :: "('a \<Rightarrow> 'b) \<Rightarrow> 'a list list list \<Rightarrow> 'b list list list" where
  "map3 f = map (map (map f))"

definition elems3 :: "'a list list list \<Rightarrow> 'a list" where
  "elems3 xs = concat (concat xs)"

definition elems4 :: "'a list list list list \<Rightarrow> 'a list" where
  "elems4 xs = concat (concat (concat xs))"

section \<open>compute\_jhjinv\<close>

text \<open>\<^verbatim>\<open>model_arr.reshape(new_shape)\<close> with \<^verbatim>\<open>new_shape[-2:] = [4]\<close>: row-major.\<close>

fun reshape4 :: "'a m22 \<Rightarrow> 'a v4" where
  "reshape4 (M22 a b c d) = V4 a b c d"

text \<open>\<^verbatim>\<open>jhjinv.reshape(new_shape)\<close> with \<^verbatim>\<open>new_shape[-2:] = [2, 2]\<close>.\<close>

fun reshape22 :: "'a v4 \<Rightarrow> 'a m22" where
  "reshape22 (V4 a b c d) = M22 a b c d"

text \<open>\<^verbatim>\<open>abs(x)**2\<close>, element by element.\<close>

definition abs_sq :: "complex v4 \<Rightarrow> real v4" where
  "abs_sq v = map_v4 (\<lambda>z. (cmod z)\<^sup>2) v"

fun v4_add :: "real v4 \<Rightarrow> real v4 \<Rightarrow> real v4" where
  "v4_add (V4 a b c d) (V4 a' b' c' d') = V4 (a + a') (b + b') (c + c') (d + d')"

text \<open>\<^verbatim>\<open>np.sum(..., axis=-2)\<close>: the sum over the second antenna axis.\<close>

definition sum_axis :: "real v4 list \<Rightarrow> real v4" where
  "sum_axis vs = foldr v4_add vs (V4 0 0 0 0)"

text \<open>The rows of the fixed matrix \<^verbatim>\<open>to_norm\<close>.\<close>

definition to_norm :: "real v4 v4" where
  "to_norm = V4 (V4 2 0 0 0) (V4 1 0 0 1) (V4 1 0 0 1) (V4 0 0 0 2)"

text \<open>\<^verbatim>\<open>x.dot(m)\<close> on the last axis of \<open>x\<close>: \<open>y[j] = sum_i x[i] * m[i][j]\<close>.\<close>

fun dot4 :: "real v4 \<Rightarrow> real v4 v4 \<Rightarrow> real v4" where
  "dot4 (V4 x0 x1 x2 x3) (V4 (V4 a00 a01 a02 a03) (V4 a10 a11 a12 a13)
                              (V4 a20 a21 a22 a23) (V4 a30 a31 a32 a33)) =
     V4 (x0 * a00 + x1 * a10 + x2 * a20 + x3 * a30)
        (x0 * a01 + x1 * a11 + x2 * a21 + x3 * a31)
        (x0 * a02 + x1 * a12 + x2 * a22 + x3 * a32)
        (x0 * a03 + x1 * a13 + x2 * a23 + x3 * a33)"

text \<open>
  Line 59: the array \<^verbatim>\<open>jhjinv\<close> before the inversion, of shape \<^verbatim>\<open>[T, F, A, 4]\<close>,
  in exact arithmetic. What float64 makes of the same line when a square overflows is
  \<open>row_sums_f64\<close> and \<open>dot4_f64\<close> below.
\<close>

definition summed_norm :: "vis \<Rightarrow> real v4 list list list" where
  "summed_norm model_arr =
     map3 (\<lambda>row. dot4 (sum_axis (map (\<lambda>b. abs_sq (reshape4 b)) row)) to_norm) model_arr"

fun v4_list :: "'a v4 \<Rightarrow> 'a list" where
  "v4_list (V4 a b c d) = [a, b, c, d]"

text \<open>
  Line 61, \<^verbatim>\<open>jhjinv[jhjinv != 0] = 1./jhjinv[jhjinv != 0]\<close>. The right-hand side
  gathers the entries selected by the mask and divides 1 by each of them:
  \<open>jhjinv_divisors\<close> is that gathered array, the only divisors of the function. The
  assignment scatters the quotients back to the selected places and leaves the other
  entries as they are.
\<close>

definition jhjinv_divisors :: "vis \<Rightarrow> real list" where
  "jhjinv_divisors model_arr =
     filter (\<lambda>x. x \<noteq> 0) (concat (map v4_list (elems3 (summed_norm model_arr))))"

definition masked_recip :: "real \<Rightarrow> real" where
  "masked_recip x = (if x \<noteq> 0 then 1 / x else x)"

definition compute_jhjinv :: "vis \<Rightarrow> real m22 list list list" where
  "compute_jhjinv model_arr =
     map3 (\<lambda>s. reshape22 (map_v4 masked_recip s)) (summed_norm model_arr)"

section \<open>Products of small matrices\<close>

text \<open>\<^verbatim>\<open>einsum("...ij,...jk->...ik", a, b)\<close> on one pair of 2x2 blocks: the product \<open>a b\<close>.\<close>

fun mm :: "complex m22 \<Rightarrow> complex m22 \<Rightarrow> complex m22" where
  "mm (M22 a00 a01 a10 a11) (M22 b00 b01 b10 b11) =
     M22 (a00 * b00 + a01 * b10) (a00 * b01 + a01 * b11)
         (a10 * b00 + a11 * b10) (a10 * b01 + a11 * b11)"

text \<open>\<^verbatim>\<open>einsum("...ij,...kj->...ik", a, b)\<close>: the product of \<open>a\<close> with the transpose of \<open>b\<close>.\<close>

fun mm_t :: "complex m22 \<Rightarrow> complex m22 \<Rightarrow> complex m22" where
  "mm_t (M22 a00 a01 a10 a11) (M22 b00 b01 b10 b11) =
     M22 (a00 * b00 + a01 * b01) (a00 * b10 + a01 * b11)
         (a10 * b00 + a11 * b01) (a10 * b10 + a11 * b11)"

text \<open>\<^verbatim>\<open>x.conj()\<close> on a block.\<close>

definition conj22 :: "complex m22 \<Rightarrow> complex m22" where
  "conj22 = map_m22 cnj"

fun add22 :: "complex m22 \<Rightarrow> complex m22 \<Rightarrow> complex m22" where
  "add22 (M22 a b c d) (M22 a' b' c' d') = M22 (a + a') (b + b') (c + c') (d + d')"

fun sub22 :: "complex m22 \<Rightarrow> complex m22 \<Rightarrow> complex m22" where
  "sub22 (M22 a b c d) (M22 a' b' c' d') = M22 (a - a') (b - b') (c - c') (d - d')"

text \<open>A 2x4 matrix is a column of two rows of length 4.\<close>

fun mul_22_24 :: "complex m22 \<Rightarrow> complex v4 v2 \<Rightarrow> complex v4 v2" where
  "mul_22_24 (M22 a00 a01 a10 a11) (V2 (V4 e00 e01 e02 e03) (V4 e10 e11 e12 e13)) =
     V2 (V4 (a00 * e00 + a01 * e10) (a00 * e01 + a01 * e11)
            (a00 * e02 + a01 * e12) (a00 * e03 + a01 * e13))
        (V4 (a10 * e00 + a11 * e10) (a10 * e01 + a11 * e11)
            (a10 * e02 + a11 * e12) (a10 * e03 + a11 * e13))"

fun mul_24_41 :: "complex v4 v2 \<Rightarrow> complex v4 \<Rightarrow> complex v2" where
  "mul_24_41 (V2 (V4 h00 h01 h02 h03) (V4 h10 h11 h12 h13)) (V4 x0 x1 x2 x3) =
     V2 (h00 * x0 + h01 * x1 + h02 * x2 + h03 * x3)
        (h10 * x0 + h11 * x1 + h12 * x2 + h13 * x3)"

fun mul_22_21 :: "real m22 \<Rightarrow> real v2 \<Rightarrow> real v2" where
  "mul_22_21 (M22 a00 a01 a10 a11) (V2 x0 x1) = V2 (a00 * x0 + a01 * x1) (a10 * x0 + a11 * x1)"

section \<open>Contractions over the antenna axes\<close>

text \<open>
  The leading axes \<^verbatim>\<open>[T, F]\<close> are walked in step by \<open>map2\<close>; inside one
  time-frequency cell an array of visibilities is a list of rows (antenna p) of blocks
  (antenna q), an array of gains a list of blocks. The operands of every contraction of
  the solver have the same extents on the axes they share; \<open>map2\<close> on operands of
  different extents is outside what the functions below are meant for.
\<close>

definition cells2 :: "('a \<Rightarrow> 'b \<Rightarrow> 'c) \<Rightarrow> 'a list list \<Rightarrow> 'b list list \<Rightarrow> 'c list list" where
  "cells2 f xs ys = map2 (map2 f) xs ys"

text \<open>\<^verbatim>\<open>einsum("...lij,...lmjk->...lmik", g, v)\<close>: \<open>out[l][m] = g[l] v[l][m]\<close>.\<close>

definition left_mul :: "complex m22 list \<Rightarrow> complex m22 list list \<Rightarrow> complex m22 list list" where
  "left_mul g v = map2 (\<lambda>gl row. map (\<lambda>b. mm gl b) row) g v"

text \<open>\<^verbatim>\<open>einsum("...lmij,...mkj->...lmik", v, g)\<close>: \<open>out[l][m] = v[l][m] g[m]\<^sup>T\<close>.\<close>

definition right_mul_t :: "complex m22 list list \<Rightarrow> complex m22 list \<Rightarrow> complex m22 list list" where
  "right_mul_t v g = map (\<lambda>row. map2 (\<lambda>b gm. mm_t b gm) row g) v"

text \<open>\<^verbatim>\<open>einsum("gh...ij,gh...jk->gh...ik", v, g)\<close>: \<open>out[p][q] = v[p][q] g[q]\<close>.\<close>

definition right_mul :: "complex m22 list list \<Rightarrow> complex m22 list \<Rightarrow> complex m22 list list" where
  "right_mul v g = map (\<lambda>row. map2 (\<lambda>b gq. mm b gq) row g) v"

section \<open>compute\_jhr, compute\_update, compute\_residual\<close>

definition spec_eye :: "complex v4 v2" where
  "spec_eye = V2 (V4 1 0 0 0) (V4 0 0 0 1)"

text \<open>\<^verbatim>\<open>np.sum(rgmh, axis=-3)\<close>: the sum of the blocks of one row.\<close>

definition sum_blocks :: "complex m22 list \<Rightarrow> complex m22" where
  "sum_blocks bs = foldr add22 bs (M22 0 0 0 0)"

text \<open>Lines 31 to 35 for one antenna, from its gain and its summed block.\<close>

definition jhr_block :: "complex m22 \<Rightarrow> complex m22 \<Rightarrow> real v2" where
  "jhr_block g s =
     (let ghi = mul_22_24 (conj22 g) spec_eye;
          ghirgmh = mul_24_41 ghi (reshape4 s)
      in map_v2 (\<lambda>z. - 2 * Im z) ghirgmh)"

definition compute_jhr :: "vis \<Rightarrow> vis \<Rightarrow> gains \<Rightarrow> real v2 list list list" where
  "compute_jhr obser_arr model_arr gains =
     (let rg = cells2 right_mul obser_arr gains;
          rgmh = cells2 (map2 (map2 (\<lambda>a b. mm_t a (conj22 b)))) rg model_arr;
          rgmh_sum = map3 sum_blocks rgmh
      in cells2 (map2 jhr_block) gains rgmh_sum)"

definition compute_update ::
  "vis \<Rightarrow> vis \<Rightarrow> gains \<Rightarrow> real m22 list list list \<Rightarrow> real v2 list list list" where
  "compute_update model_arr obser_arr gains jhjinv =
     (let jhr = compute_jhr obser_arr model_arr gains
      in cells2 (map2 mul_22_21) jhjinv jhr)"

text \<open>Lines 105 to 107: the model with the gains applied, \<open>G M G\<^sup>H\<close>.\<close>

definition gmgh :: "gains \<Rightarrow> vis \<Rightarrow> vis" where
  "gmgh gains model_arr =
     (let gm = cells2 left_mul gains model_arr
      in cells2 right_mul_t gm (map3 conj22 gains))"

definition compute_residual :: "vis \<Rightarrow> vis \<Rightarrow> gains \<Rightarrow> vis" where
  "compute_residual obser_arr model_arr gains =
     cells2 (map2 (map2 sub22)) obser_arr (gmgh gains model_arr)"

section \<open>Norms\<close>

text \<open>\<^verbatim>\<open>np.linalg.norm\<close> of an array: the 2-norm of the flattened array.\<close>

fun abs_sq22 :: "complex m22 \<Rightarrow> real" where
  "abs_sq22 (M22 a b c d) = (cmod a)\<^sup>2 + (cmod b)\<^sup>2 + (cmod c)\<^sup>2 + (cmod d)\<^sup>2"

definition norm_blocks :: "complex m22 list \<Rightarrow> real" where
  "norm_blocks bs = sqrt (sum_list (map abs_sq22 bs))"

section \<open>Gains from phases\<close>

text \<open>\<^verbatim>\<open>np.exp(-1j*phases)\<close> on one entry.\<close>

definition exp_phase :: "real \<Rightarrow> complex" where
  "exp_phase x = exp (- \<i> * complex_of_real x)"

text \<open>\<^verbatim>\<open>einsum("...ij,...jk", e, np.ones([1, 2]))\<close>: a 2x1 column times a row of ones.\<close>

fun outer_ones :: "complex v2 \<Rightarrow> complex m22" where
  "outer_ones (V2 e0 e1) = M22 (e0 * 1) (e0 * 1) (e1 * 1) (e1 * 1)"

text \<open>\<^verbatim>\<open>gains[..., (0, 1), (1, 0)] = 0\<close>: the entries [0][1] and [1][0] are set to 0.\<close>

fun zero_offdiag :: "complex m22 \<Rightarrow> complex m22" where
  "zero_offdiag (M22 a b c d) = M22 a 0 0 d"

definition gains_of_phases :: "phases \<Rightarrow> gains" where
  "gains_of_phases ph = map3 (\<lambda>p. zero_offdiag (outer_ones (map_v2 exp_phase p))) ph"

text \<open>\<^verbatim>\<open>np.zeros(phase_shape)\<close>, the shape of the model with its last three axes
  replaced by \<^verbatim>\<open>[2, 1]\<close>.\<close>

definition zero_phases :: "vis \<Rightarrow> phases" where
  "zero_phases model_arr = map3 (\<lambda>row. V2 0 0) model_arr"

text \<open>\<^verbatim>\<open>phases += fact*update\<close>.\<close>

fun add_scaled :: "real \<Rightarrow> real v2 \<Rightarrow> real v2 \<Rightarrow> real v2" where
  "add_scaled fct (V2 p0 p1) (V2 u0 u1) = V2 (p0 + fct * u0) (p1 + fct * u1)"

section \<open>The solver loop\<close>

text \<open>\<open>chi\<close> starts as \<^verbatim>\<open>np.inf\<close> and is a finite number after the first check.\<close>

datatype xreal = PInf | Fin real

text \<open>\<^verbatim>\<open>(old_chi - chi) < chi_tol\<close> and \<^verbatim>\<open>old_chi < chi\<close> for a finite \<open>chi\<close>.\<close>

fun improvement_below :: "xreal \<Rightarrow> real \<Rightarrow> real \<Rightarrow> bool" where
  "improvement_below PInf chi chi_tol = False"
| "improvement_below (Fin old_chi) chi chi_tol = (old_chi - chi < chi_tol)"

fun chi_increased :: "xreal \<Rightarrow> real \<Rightarrow> bool" where
  "chi_increased PInf chi = False"
| "chi_increased (Fin old_chi) chi = (old_chi < chi)"

text \<open>
  The statement at which a call ends: the \<^verbatim>\<open>return\<close> after the loop (line 176), the
  one of the iteration cap (163), the one of the chi-squared tolerance (169), the one
  after \<^verbatim>\<open>print "Bad solutions."\<close> (172), or the \<^verbatim>\<open>ZeroDivisionError\<close> that
  \<^verbatim>\<open>iters % chi_interval\<close> raises when \<^verbatim>\<open>chi_interval\<close> is 0.
\<close>

datatype exit_kind =
  Loop_exit | Maxiter_return | Chi_tol_return | Bad_solutions_return | Zero_division

record config =
  cfg_model_arr :: vis
  cfg_obser_arr :: vis
  cfg_min_delta_g :: real
  cfg_maxiter :: int
  cfg_chi_tol :: real
  cfg_chi_interval :: int

text \<open>
  The variables of the loop. \<open>st_old_chi\<close> is \<open>None\<close> until line 166 first assigns
  \<^verbatim>\<open>old_chi\<close>. \<open>st_printed\<close> is what has been written to standard output;
  \<open>st_facts\<close> is a history variable, the values \<^verbatim>\<open>fact\<close> has taken so far.
\<close>

record state =
  st_phases :: phases
  st_gains :: gains
  st_delta_g :: real
  st_iters :: int
  st_chi :: xreal
  st_old_chi :: "xreal option"
  st_printed :: "string list"
  st_facts :: "real list"

text \<open>Lines 148 to 151.\<close>

definition relax_fact :: "int \<Rightarrow> real" where
  "relax_fact iters = (if iters mod 2 = 0 then 0.5 else 1)"

text \<open>
  One pass through the body of the \<^verbatim>\<open>while\<close> loop (lines 148 to 174): \<open>Inl\<close> when
  the pass ends the call, \<open>Inr\<close> when it reaches the end of the body.
\<close>

definition loop_body :: "config \<Rightarrow> real m22 list list list \<Rightarrow> state \<Rightarrow> (exit_kind \<times> state) + state" where
  "loop_body c jhjinv s =
     (let fact = relax_fact (st_iters s);
          phases = cells2 (map2 (add_scaled fact)) (st_phases s)
                     (compute_update (cfg_model_arr c) (cfg_obser_arr c) (st_gains s) jhjinv);
          old_gains = st_gains s;
          gains = gains_of_phases phases;
          iters = st_iters s + 1;
          s1 = s\<lparr>st_phases := phases, st_gains := gains, st_iters := iters,
                 st_facts := st_facts s @ [fact]\<rparr>
      in if iters > cfg_maxiter c then Inl (Maxiter_return, s1)
         else if cfg_chi_interval c = 0 then Inl (Zero_division, s1)
         else if iters mod cfg_chi_interval c = 0 then
           (let old_chi = st_chi s1;
                chi = norm_blocks (elems4 (compute_residual (cfg_obser_arr c) (cfg_model_arr c) gains));
                s2 = s1\<lparr>st_old_chi := Some old_chi, st_chi := Fin chi\<rparr>
            in if improvement_below old_chi chi (cfg_chi_tol c) then Inl (Chi_tol_return, s2)
               else if chi_increased old_chi chi then
                 Inl (Bad_solutions_return, s2\<lparr>st_printed := st_printed s2 @ [''Bad solutions.'']\<rparr>)
               else Inr (s2\<lparr>st_delta_g :=
                              norm_blocks (elems3 (cells2 (map2 sub22) old_gains gains))\<rparr>))
         else Inr (s1\<lparr>st_delta_g :=
                        norm_blocks (elems3 (cells2 (map2 sub22) old_gains gains))\<rparr>))"

function solver_loop :: "config \<Rightarrow> real m22 list list list \<Rightarrow> state \<Rightarrow> exit_kind \<times> state" where
  "solver_loop c jhjinv s =
     (if st_delta_g s > cfg_min_delta_g c then
        (case loop_body c jhjinv s of
           Inl r \<Rightarrow> r
         | Inr s' \<Rightarrow> solver_loop c jhjinv s')
      else (Loop_exit, s))"
  by pat_completeness auto
termination
  by (relation "measure (\<lambda>(c, jhjinv, s). nat (cfg_maxiter c + 1 - st_iters s))")
     (auto simp: loop_body_def Let_def split: if_splits)

declare solver_loop.simps [simp del]

text \<open>Lines 132 to 144: the state in which the loop is entered.\<close>

definition initial_state :: "vis \<Rightarrow> state" where
  "initial_state model =
     \<lparr>st_phases = zero_phases model, st_gains = gains_of_phases (zero_phases model),
      st_delta_g = 1, st_iters = 0, st_chi = PInf, st_old_chi = None,
      st_printed = [], st_facts = []\<rparr>"

definition run_solver :: "config \<Rightarrow> exit_kind \<times> state" where
  "run_solver c = solver_loop c (compute_jhjinv (cfg_model_arr c)) (initial_state (cfg_model_arr c))"

datatype error = ZeroDivisionError

text \<open>What the caller gets: the array \<^verbatim>\<open>gains\<close>, or the exception.\<close>

definition full_pol_phase_only ::
  "vis \<Rightarrow> vis \<Rightarrow> real \<Rightarrow> int \<Rightarrow> real \<Rightarrow> int \<Rightarrow> error + gains" where
  "full_pol_phase_only model_arr obser_arr min_delta_g maxiter chi_tol chi_interval =
     (case run_solver \<lparr>cfg_model_arr = model_arr, cfg_obser_arr = obser_arr,
                        cfg_min_delta_g = min_delta_g, cfg_maxiter = maxiter,
                        cfg_chi_tol = chi_tol, cfg_chi_interval = chi_interval\<rparr> of
        (Zero_division, s) \<Rightarrow> Inl ZeroDivisionError
      | (_, s) \<Rightarrow> Inr (st_gains s))"

section \<open>apply\_gains\<close>







section \<open>Predicates and inputs used in the statements\<close>

text \<open>The state in which a pass through the loop body ends, returning or not.\<close>

definition pass_state :: "(exit_kind \<times> state) + state \<Rightarrow> state" where
  "pass_state r = (case r of Inl (k, s) \<Rightarrow> s | Inr s \<Rightarrow> s)"

text \<open>
  The state of a run at its test number \<open>k\<close> of the loop condition, counted from 0:
  the state after \<open>k\<close> passes through the body, none of which has returned. It is
  \<open>None\<close> when the run ends before.
\<close>

primrec state_after :: "config \<Rightarrow> nat \<Rightarrow> state option" where
  "state_after c 0 = Some (initial_state (cfg_model_arr c))"
| "state_after c (Suc k) =
     (case state_after c k of
        None \<Rightarrow> None
      | Some s \<Rightarrow>
          if st_delta_g s > cfg_min_delta_g c then
            (case loop_body c (compute_jhjinv (cfg_model_arr c)) s of
               Inl r \<Rightarrow> None
             | Inr s' \<Rightarrow> Some s')
          else None)"

text \<open>The block that \<open>compute_jhjinv\<close> computes for one antenna, from its row of the model.\<close>

definition jhjinv_block :: "complex m22 list \<Rightarrow> real m22" where
  "jhjinv_block row =
     reshape22 (map_v4 masked_recip
       (dot4 (sum_axis (map (\<lambda>b. abs_sq (reshape4 b)) row)) to_norm))"

text \<open>Every block of an array of gains has its entries [0][1] and [1][0] equal to 0.\<close>

definition diagonal_gains :: "gains \<Rightarrow> bool" where
  "diagonal_gains g = (\<forall>b \<in> set (elems3 g). m01 b = 0 \<and> m10 b = 0)"

text \<open>
  At the last chi-squared check of a run, \<^verbatim>\<open>old_chi < chi\<close> held: chi-squared had
  increased since the check before.
\<close>

definition chi_rose :: "state \<Rightarrow> bool" where
  "chi_rose s =
     (case st_old_chi s of
        None \<Rightarrow> False
      | Some old_chi \<Rightarrow> (case st_chi s of PInf \<Rightarrow> False | Fin chi \<Rightarrow> chi_increased old_chi chi))"





text \<open>
  One time-frequency cell, two antennas. The only non-zero visibility is that of the
  pair (0, 1): its first correlation is 1 in the model and \<open>3 + \<i>\<close> in the observed
  data.
\<close>

definition bug_model :: vis where
  "bug_model = [[[[M22 0 0 0 0, M22 1 0 0 0], [M22 0 0 0 0, M22 0 0 0 0]]]]"

definition bug_obser :: vis where
  "bug_obser = [[[[M22 0 0 0 0, M22 (3 + \<i>) 0 0 0], [M22 0 0 0 0, M22 0 0 0 0]]]]"

text \<open>The default parameters, but \<^verbatim>\<open>chi_interval=1\<close>.\<close>

definition bug_config :: config where
  "bug_config = \<lparr>cfg_model_arr = bug_model, cfg_obser_arr = bug_obser, cfg_min_delta_g = 1/1000,
                  cfg_maxiter = 30, cfg_chi_tol = 1/1000000, cfg_chi_interval = 1\<rparr>"

text \<open>The same call with \<^verbatim>\<open>chi_tol=-100\<close>, and the same call with \<^verbatim>\<open>maxiter=1\<close>.\<close>

definition diverged_config :: config where
  "diverged_config = bug_config\<lparr>cfg_chi_tol := - 100\<rparr>"

definition capped_config :: config where
  "capped_config = bug_config\<lparr>cfg_maxiter := 1\<rparr>"

text \<open>
  The first phase of antenna 0 after the second pass of that run, the norm of the residual
  as a function of that phase, and the states of the run after its first and second pass.
\<close>

definition bug_phi2 :: real where
  "bug_phi2 = 3 * sin (1/2) - cos (1/2) - 1/2"

definition chi_at :: "real \<Rightarrow> real" where
  "chi_at x = sqrt ((3 - cos x)\<^sup>2 + (1 + sin x)\<^sup>2)"

definition bug_state1 :: state where
  "bug_state1 =
     \<lparr>st_phases = [[[V2 (- 1/2) 0, V2 0 0]]],
      st_gains = [[[M22 (exp_phase (- 1/2)) 0 0 1, M22 1 0 0 1]]],
      st_delta_g = sqrt ((1 - cos (1/2))\<^sup>2 + (sin (1/2))\<^sup>2), st_iters = 1,
      st_chi = Fin (chi_at (- 1/2)), st_old_chi = Some PInf, st_printed = [],
      st_facts = [1/2]\<rparr>"

definition bug_state2 :: state where
  "bug_state2 =
     \<lparr>st_phases = [[[V2 bug_phi2 0, V2 0 0]]],
      st_gains = [[[M22 (exp_phase bug_phi2) 0 0 1, M22 1 0 0 1]]],
      st_delta_g = sqrt ((1 - cos (1/2))\<^sup>2 + (sin (1/2))\<^sup>2), st_iters = 2,
      st_chi = Fin (chi_at bug_phi2), st_old_chi = Some (Fin (chi_at (- 1/2))), st_printed = [],
      st_facts = [1/2, 1]\<rparr>"

text \<open>One time-frequency cell, one antenna, all visibilities zero.\<close>

definition zero_vis :: vis where
  "zero_vis = [[[[M22 0 0 0 0]]]]"

text \<open>One time-frequency cell, one antenna, a visibility with three non-zero entries.\<close>

definition one_vis :: vis where
  "one_vis = [[[[M22 1 \<i> 0 2]]]]"

text \<open>One time-frequency cell, two antennas, all visibilities zero.\<close>

definition zero_vis2 :: vis where
  "zero_vis2 = [[[[M22 0 0 0 0, M22 0 0 0 0], [M22 0 0 0 0, M22 0 0 0 0]]]]"

text \<open>The default parameters, but \<^verbatim>\<open>maxiter=0\<close>.\<close>

definition cap_config :: config where
  "cap_config = \<lparr>cfg_model_arr = zero_vis, cfg_obser_arr = zero_vis, cfg_min_delta_g = 1/1000,
                  cfg_maxiter = 0, cfg_chi_tol = 1/1000000, cfg_chi_interval = 5\<rparr>"

text \<open>The default parameters, but \<^verbatim>\<open>min_delta_g=-1\<close> and \<^verbatim>\<open>chi_interval=1\<close>.\<close>

definition check_config :: config where
  "check_config = \<lparr>cfg_model_arr = zero_vis, cfg_obser_arr = zero_vis, cfg_min_delta_g = - 1,
                    cfg_maxiter = 30, cfg_chi_tol = 1/1000000, cfg_chi_interval = 1\<rparr>"

text \<open>The default parameters, but \<^verbatim>\<open>min_delta_g=1\<close>.\<close>

definition skip_config :: config where
  "skip_config = \<lparr>cfg_model_arr = zero_vis, cfg_obser_arr = zero_vis, cfg_min_delta_g = 1,
                   cfg_maxiter = 30, cfg_chi_tol = 1/1000000, cfg_chi_interval = 5\<rparr>"

section \<open>compute\_jhjinv in float64\<close>

text \<open>
  Over the reals no square overflows and a product with 0 is 0. In float64 the square
  of a large magnitude is \<^verbatim>\<open>inf\<close>, and \<^verbatim>\<open>inf * 0\<close> is \<^verbatim>\<open>nan\<close>. This section
  reads lines 59 to 65 again with these two facts; \<open>jhjinv_block_f64\<close> is the block of
  one antenna, and it is the block \<open>jhjinv_block\<close> of the exact reading whenever nothing
  overflows (lemma \<open>jhjinv_block_f64_exact\<close>).
\<close>






















section \<open>Properties of compute\_jhjinv\<close>

lemma sum_axis_nonneg:
  "(\<And>v. v \<in> set vs \<Longrightarrow> 0 \<le> v4_0 v \<and> 0 \<le> v4_1 v \<and> 0 \<le> v4_2 v \<and> 0 \<le> v4_3 v) \<Longrightarrow>
   0 \<le> v4_0 (sum_axis vs) \<and> 0 \<le> v4_1 (sum_axis vs) \<and>
   0 \<le> v4_2 (sum_axis vs) \<and> 0 \<le> v4_3 (sum_axis vs)"
proof (induction vs)
  case Nil
  then show ?case by (simp add: sum_axis_def)
next
  case (Cons v vs)
  have tl: "0 \<le> v4_0 (sum_axis vs) \<and> 0 \<le> v4_1 (sum_axis vs) \<and>
            0 \<le> v4_2 (sum_axis vs) \<and> 0 \<le> v4_3 (sum_axis vs)"
    using Cons by simp
  have hd: "0 \<le> v4_0 v \<and> 0 \<le> v4_1 v \<and> 0 \<le> v4_2 v \<and> 0 \<le> v4_3 v"
    using Cons.prems by simp
  have unf: "sum_axis (v # vs) = v4_add v (sum_axis vs)"
    by (simp add: sum_axis_def)
  show ?case
    unfolding unf using hd tl by (cases v; cases "sum_axis vs") simp
qed

lemma abs_sq_nonneg:
  "0 \<le> v4_0 (abs_sq v) \<and> 0 \<le> v4_1 (abs_sq v) \<and> 0 \<le> v4_2 (abs_sq v) \<and> 0 \<le> v4_3 (abs_sq v)"
  by (cases v) (simp add: abs_sq_def)

lemma sum_axis_abs_sq_nonneg:
  "0 \<le> v4_0 (sum_axis (map (\<lambda>b. abs_sq (reshape4 b)) row)) \<and>
   0 \<le> v4_1 (sum_axis (map (\<lambda>b. abs_sq (reshape4 b)) row)) \<and>
   0 \<le> v4_2 (sum_axis (map (\<lambda>b. abs_sq (reshape4 b)) row)) \<and>
   0 \<le> v4_3 (sum_axis (map (\<lambda>b. abs_sq (reshape4 b)) row))"
  by (rule sum_axis_nonneg) (auto simp: abs_sq_nonneg)

lemma compute_jhjinv_blocks: "compute_jhjinv model_arr = map3 jhjinv_block model_arr"
  by (simp add: compute_jhjinv_def summed_norm_def map3_def jhjinv_block_def comp_def)

lemma masked_recip_nonneg: "0 \<le> x \<Longrightarrow> 0 \<le> masked_recip x"
  by (simp add: masked_recip_def)

lemma jhjinv_block_diag:
  "m01 (jhjinv_block row) = 0 \<and> m10 (jhjinv_block row) = 0 \<and>
   0 \<le> m00 (jhjinv_block row) \<and> 0 \<le> m11 (jhjinv_block row)"
proof -
  obtain s0 s1 s2 s3 where s: "sum_axis (map (\<lambda>b. abs_sq (reshape4 b)) row) = V4 s0 s1 s2 s3"
    by (cases "sum_axis (map (\<lambda>b. abs_sq (reshape4 b)) row)") blast
  have nn: "0 \<le> s0 \<and> 0 \<le> s1 \<and> 0 \<le> s2 \<and> 0 \<le> s3"
    using sum_axis_abs_sq_nonneg [of row] by (simp add: s)
  show ?thesis
    using nn by (simp add: jhjinv_block_def s to_norm_def masked_recip_def)
qed

lemma elems3_map3: "elems3 (map3 f xs) = map f (elems3 xs)"
  by (simp add: elems3_def map3_def map_concat comp_def)

lemma elems4_elems3: "elems4 xs = concat (elems3 xs)"
  by (simp add: elems4_def elems3_def)

lemma sum_axis_zero:
  "(\<And>b. b \<in> set row \<Longrightarrow> b = M22 0 0 0 0) \<Longrightarrow>
   sum_axis (map (\<lambda>b. abs_sq (reshape4 b)) row) = V4 0 0 0 0"
proof (induction row)
  case Nil
  then show ?case by (simp add: sum_axis_def)
next
  case (Cons b row)
  have "sum_axis (map (\<lambda>b. abs_sq (reshape4 b)) row) = V4 0 0 0 0"
    using Cons by simp
  moreover have "b = M22 0 0 0 0" using Cons.prems by simp
  ultimately show ?case by (simp add: sum_axis_def abs_sq_def)
qed

lemma jhjinv_block_zero:
  "(\<And>b. b \<in> set row \<Longrightarrow> b = M22 0 0 0 0) \<Longrightarrow> jhjinv_block row = M22 0 0 0 0"
  by (simp add: jhjinv_block_def sum_axis_zero to_norm_def masked_recip_def)

lemma masked_recip_cases: "masked_recip = (\<lambda>x. if x = 0 then 0 else 1 / x)"
  by (auto simp: masked_recip_def fun_eq_iff)

lemma filter_masked_recip:
  "filter (\<lambda>x. x \<noteq> 0) (map masked_recip xs) = map (\<lambda>d. 1 / d) (filter (\<lambda>x. x \<noteq> 0) xs)"
  by (induction xs) (simp_all add: masked_recip_def)

lemma v4_list_recip: "v4_list (reshape4 (reshape22 (map_v4 f s))) = map f (v4_list s)"
  by (cases s) simp

lemma scattered_quotients:
  "filter (\<lambda>x. x \<noteq> 0) (concat (map (\<lambda>b. v4_list (reshape4 b)) (elems3 (compute_jhjinv model_arr)))) =
     map (\<lambda>d. 1 / d) (jhjinv_divisors model_arr)"
proof -
  have "concat (map (\<lambda>b. v4_list (reshape4 b)) (elems3 (compute_jhjinv model_arr))) =
        map masked_recip (concat (map v4_list (elems3 (summed_norm model_arr))))"
    by (simp add: compute_jhjinv_def elems3_map3 comp_def v4_list_recip map_concat)
  then show ?thesis
    by (simp add: jhjinv_divisors_def filter_masked_recip)
qed

text \<open>
  Claim C4. \<open>compute_jhjinv\<close> divides by no zero: every divisor of line 61 is an entry
  selected by the mask \<^verbatim>\<open>jhjinv != 0\<close>, and the non-zero entries of the result are, in
  order, the quotients of 1 by these divisors. Every non-zero entry of the summed and
  normalised array is replaced by its reciprocal and every zero entry stays zero, and a
  model whose entries are all zero gives blocks whose entries are all zero.
\<close>

theorem jhjinv_no_division_by_zero:
  "(\<forall>d \<in> set (jhjinv_divisors model_arr). d \<noteq> 0) \<and>
   filter (\<lambda>x. x \<noteq> 0)
       (concat (map (\<lambda>b. v4_list (reshape4 b)) (elems3 (compute_jhjinv model_arr)))) =
     map (\<lambda>d. 1 / d) (jhjinv_divisors model_arr) \<and>
   compute_jhjinv model_arr =
     map3 (\<lambda>s. reshape22 (map_v4 (\<lambda>x. if x = 0 then 0 else 1 / x) s)) (summed_norm model_arr) \<and>
   ((\<forall>b \<in> set (elems4 model_arr). b = M22 0 0 0 0) \<longrightarrow>
      (\<forall>b \<in> set (elems3 (compute_jhjinv model_arr)). b = M22 0 0 0 0))"
proof -
  have a: "\<forall>d \<in> set (jhjinv_divisors model_arr). d \<noteq> 0"
    by (simp add: jhjinv_divisors_def)
  have b: "compute_jhjinv model_arr =
     map3 (\<lambda>s. reshape22 (map_v4 (\<lambda>x. if x = 0 then 0 else 1 / x) s)) (summed_norm model_arr)"
    by (simp add: compute_jhjinv_def masked_recip_cases)
  have c: "\<forall>b \<in> set (elems3 (compute_jhjinv model_arr)). b = M22 0 0 0 0"
    if z: "\<forall>b \<in> set (elems4 model_arr). b = M22 0 0 0 0"
  proof
    fix blk assume "blk \<in> set (elems3 (compute_jhjinv model_arr))"
    then obtain row where row: "row \<in> set (elems3 model_arr)" and blk: "blk = jhjinv_block row"
      by (auto simp: compute_jhjinv_blocks elems3_map3)
    have "b = M22 0 0 0 0" if "b \<in> set row" for b
      using z row that by (auto simp: elems4_elems3)
    then show "blk = M22 0 0 0 0" using blk jhjinv_block_zero by simp
  qed
  show ?thesis using a b c scattered_quotients [of model_arr] by blast
qed

theorem jhjinv_no_division_by_zero_witness:
  "jhjinv_divisors one_vis = [3, 9] \<and>
   compute_jhjinv one_vis = [[[M22 (1/3) 0 0 (1/9)]]] \<and>
   elems4 zero_vis = [M22 0 0 0 0] \<and>
   compute_jhjinv zero_vis = [[[M22 0 0 0 0]]]"
proof -
  have d: "jhjinv_divisors one_vis = [3, 9]"
    by (simp add: jhjinv_divisors_def summed_norm_def map3_def elems3_def one_vis_def
          sum_axis_def abs_sq_def to_norm_def)
  have s: "summed_norm one_vis = [[[V4 3 0 0 9]]]"
    by (simp add: summed_norm_def map3_def one_vis_def sum_axis_def abs_sq_def to_norm_def)
  have z: "elems4 zero_vis = [M22 0 0 0 0]"
    by (simp add: elems4_def zero_vis_def)
  have l: "\<exists>b. compute_jhjinv zero_vis = [[[b]]]"
    by (simp add: compute_jhjinv_def summed_norm_def map3_def zero_vis_def)
  show ?thesis
    using d s z l jhjinv_no_division_by_zero [of one_vis] jhjinv_no_division_by_zero [of zero_vis]
    by (auto simp: map3_def elems3_def)
qed

section \<open>The blocks of compute\_jhjinv in float64\<close>


























section \<open>apply\_gains undoes the gains\<close>
















section \<open>Reasoning about the loop\<close>

lemma solver_loop_exit:
  "\<not> cfg_min_delta_g c < st_delta_g s \<Longrightarrow> solver_loop c j s = (Loop_exit, s)"
  by (subst solver_loop.simps) simp

lemma solver_loop_Inl:
  "cfg_min_delta_g c < st_delta_g s \<Longrightarrow> loop_body c j s = Inl r \<Longrightarrow> solver_loop c j s = r"
  by (subst solver_loop.simps) simp

lemma solver_loop_Inr:
  "cfg_min_delta_g c < st_delta_g s \<Longrightarrow> loop_body c j s = Inr s' \<Longrightarrow>
   solver_loop c j s = solver_loop c j s'"
  by (subst solver_loop.simps) simp

lemma solver_loop_rule:
  assumes "I s"
    and "\<And>s s'. I s \<Longrightarrow> cfg_min_delta_g c < st_delta_g s \<Longrightarrow> loop_body c j s = Inr s' \<Longrightarrow> I s'"
    and "\<And>s k s'. I s \<Longrightarrow> cfg_min_delta_g c < st_delta_g s \<Longrightarrow> loop_body c j s = Inl (k, s') \<Longrightarrow> Q (k, s')"
    and "\<And>s. I s \<Longrightarrow> \<not> cfg_min_delta_g c < st_delta_g s \<Longrightarrow> Q (Loop_exit, s)"
  shows "Q (solver_loop c j s)"
  using assms
proof (induction c j s rule: solver_loop.induct)
  case (1 c j s)
  show ?case
  proof (cases "cfg_min_delta_g c < st_delta_g s")
    case False
    then show ?thesis using 1(2) 1(5) by (subst solver_loop.simps) simp
  next
    case True
    show ?thesis
    proof (cases "loop_body c j s")
      case (Inl r)
      then show ?thesis
        using True 1(2) 1(4)[of s "fst r" "snd r"] by (subst solver_loop.simps) simp
    next
      case (Inr s')
      have "I s'" using 1(3)[OF 1(2) True Inr] .
      then have "Q (solver_loop c j s')"
        using 1(1)[OF True Inr] 1(3) 1(4) 1(5) by blast
      then show ?thesis using True Inr by (subst solver_loop.simps) simp
    qed
  qed
qed

lemma chi_tests_exclusive:
  "0 \<le> tol \<Longrightarrow> chi_increased old chi \<Longrightarrow> improvement_below old chi tol"
  by (cases old) auto

lemma loop_body_Inr:
  "loop_body c j s = Inr s' \<Longrightarrow>
     st_iters s' = st_iters s + 1 \<and> st_iters s' \<le> cfg_maxiter c \<and>
     st_facts s' = st_facts s @ [relax_fact (st_iters s)] \<and>
     st_printed s' = st_printed s \<and>
     (\<exists>ph. st_gains s' = gains_of_phases ph)"
  by (auto simp: loop_body_def Let_def split: if_splits)

lemma loop_body_Inl:
  "loop_body c j s = Inl (k, s') \<Longrightarrow>
     st_iters s' = st_iters s + 1 \<and>
     st_facts s' = st_facts s @ [relax_fact (st_iters s)] \<and>
     (\<exists>ph. st_gains s' = gains_of_phases ph) \<and>
     (k = Maxiter_return) = (cfg_maxiter c < st_iters s') \<and>
     k \<noteq> Loop_exit \<and>
     st_printed s' = st_printed s @ (if k = Bad_solutions_return then [''Bad solutions.''] else [])"
  by (auto simp: loop_body_def Let_def split: if_splits)

lemma loop_body_no_bad:
  "0 \<le> cfg_chi_tol c \<Longrightarrow> loop_body c j s = Inl (k, s') \<Longrightarrow> k \<noteq> Bad_solutions_return"
  by (auto simp: loop_body_def Let_def chi_tests_exclusive split: if_splits)

lemma loop_body_cap:
  "cfg_maxiter c < st_iters s + 1 \<Longrightarrow> \<exists>s'. loop_body c j s = Inl (Maxiter_return, s') \<and> st_iters s' = st_iters s + 1"
  by (simp add: loop_body_def Let_def)

lemma initial_state_simps:
  "st_iters (initial_state m) = 0" "st_delta_g (initial_state m) = 1"
  "st_facts (initial_state m) = []" "st_printed (initial_state m) = []"
  "st_gains (initial_state m) = gains_of_phases (zero_phases m)"
  by (simp_all add: initial_state_def)

lemma iteration_cap_loop:
  assumes "0 \<le> st_iters s" "st_iters s \<le> cfg_maxiter c" "int (length (st_facts s)) = st_iters s"
  shows "st_iters (snd (solver_loop c j s)) \<le> cfg_maxiter c + 1 \<and>
         int (length (st_facts (snd (solver_loop c j s)))) = st_iters (snd (solver_loop c j s)) \<and>
         ((fst (solver_loop c j s) = Maxiter_return) = (cfg_maxiter c < st_iters (snd (solver_loop c j s))))"
proof (rule solver_loop_rule [where I = "\<lambda>s. 0 \<le> st_iters s \<and> st_iters s \<le> cfg_maxiter c \<and>
                                        int (length (st_facts s)) = st_iters s"
                                and Q = "\<lambda>r. st_iters (snd r) \<le> cfg_maxiter c + 1 \<and>
         int (length (st_facts (snd r))) = st_iters (snd r) \<and>
         ((fst r = Maxiter_return) = (cfg_maxiter c < st_iters (snd r)))"])
  show "0 \<le> st_iters s \<and> st_iters s \<le> cfg_maxiter c \<and> int (length (st_facts s)) = st_iters s"
    using assms by simp
next
  fix s s'
  assume "0 \<le> st_iters s \<and> st_iters s \<le> cfg_maxiter c \<and> int (length (st_facts s)) = st_iters s"
    and "loop_body c j s = Inr s'"
  then show "0 \<le> st_iters s' \<and> st_iters s' \<le> cfg_maxiter c \<and> int (length (st_facts s')) = st_iters s'"
    using loop_body_Inr [of c j s s'] by simp
next
  fix s k s'
  assume "0 \<le> st_iters s \<and> st_iters s \<le> cfg_maxiter c \<and> int (length (st_facts s)) = st_iters s"
    and "loop_body c j s = Inl (k, s')"
  then show "st_iters (snd (k, s')) \<le> cfg_maxiter c + 1 \<and>
         int (length (st_facts (snd (k, s')))) = st_iters (snd (k, s')) \<and>
         ((fst (k, s') = Maxiter_return) = (cfg_maxiter c < st_iters (snd (k, s'))))"
    using loop_body_Inl [of c j s k s'] by simp
next
  fix s
  assume "0 \<le> st_iters s \<and> st_iters s \<le> cfg_maxiter c \<and> int (length (st_facts s)) = st_iters s"
  then show "st_iters (snd (Loop_exit, s)) \<le> cfg_maxiter c + 1 \<and>
         int (length (st_facts (snd (Loop_exit, s)))) = st_iters (snd (Loop_exit, s)) \<and>
         ((fst (Loop_exit, s) = Maxiter_return) = (cfg_maxiter c < st_iters (snd (Loop_exit, s))))"
    by simp
qed

lemma first_pass_cap:
  assumes "cfg_maxiter c = 0" "cfg_min_delta_g c < 1"
  shows "fst (run_solver c) = Maxiter_return \<and> st_iters (snd (run_solver c)) = 1"
proof -
  obtain s' where b: "loop_body c (compute_jhjinv (cfg_model_arr c)) (initial_state (cfg_model_arr c))
                       = Inl (Maxiter_return, s')"
    and i: "st_iters s' = st_iters (initial_state (cfg_model_arr c)) + 1"
    using loop_body_cap [of c "initial_state (cfg_model_arr c)" "compute_jhjinv (cfg_model_arr c)"] assms
    by (auto simp: initial_state_simps)
  show ?thesis
    unfolding run_solver_def
    using assms i by (simp add: solver_loop_Inl [OF _ b] initial_state_simps)
qed

section \<open>The iteration cap\<close>

text \<open>
  Claim C3. The loop always ends (\<open>solver_loop\<close> is a total function, its termination
  proved by the measure \<open>maxiter + 1 - iters\<close>). The counter is incremented once in every
  pass through the body (it equals the number of passes, the length of the history of
  \<^verbatim>\<open>fact\<close>), and the pass in which it exceeds \<^verbatim>\<open>maxiter\<close> returns at once, before
  the chi-squared check and before \<^verbatim>\<open>delta_g\<close> is looked at again: a call ends at the
  return of the cap exactly when the counter has exceeded \<^verbatim>\<open>maxiter\<close>. So for
  \<^verbatim>\<open>maxiter >= 0\<close> a call makes at most \<^verbatim>\<open>maxiter + 1\<close> passes; with
  \<^verbatim>\<open>maxiter = 0\<close> it makes at most one, and it makes exactly one and ends at the return
  of the cap whenever the loop is entered (\<^verbatim>\<open>min_delta_g < 1\<close>).
\<close>

theorem iteration_cap:
  assumes "0 \<le> cfg_maxiter c"
  shows "st_iters (snd (run_solver c)) \<le> cfg_maxiter c + 1 \<and>
         int (length (st_facts (snd (run_solver c)))) = st_iters (snd (run_solver c)) \<and>
         ((fst (run_solver c) = Maxiter_return) = (cfg_maxiter c < st_iters (snd (run_solver c)))) \<and>
         (cfg_maxiter c = 0 \<longrightarrow> st_iters (snd (run_solver c)) \<le> 1 \<and>
            (cfg_min_delta_g c < 1 \<longrightarrow>
               fst (run_solver c) = Maxiter_return \<and> st_iters (snd (run_solver c)) = 1))"
proof -
  have a: "st_iters (snd (run_solver c)) \<le> cfg_maxiter c + 1 \<and>
         int (length (st_facts (snd (run_solver c)))) = st_iters (snd (run_solver c)) \<and>
         ((fst (run_solver c) = Maxiter_return) = (cfg_maxiter c < st_iters (snd (run_solver c))))"
    unfolding run_solver_def
    by (rule iteration_cap_loop) (use assms in \<open>simp_all add: initial_state_simps\<close>)
  show ?thesis using a first_pass_cap [of c] by auto
qed

lemma solver_loop_inv:
  assumes "I s"
    and "\<And>s s'. I s \<Longrightarrow> loop_body c j s = Inr s' \<Longrightarrow> I s'"
    and "\<And>s k s'. I s \<Longrightarrow> loop_body c j s = Inl (k, s') \<Longrightarrow> I s'"
  shows "I (snd (solver_loop c j s))"
proof (rule solver_loop_rule [where I = I and Q = "\<lambda>r. I (snd r)"])
  show "I s" by (rule assms(1))
next
  fix s s' assume "I s" "loop_body c j s = Inr s'"
  then show "I s'" by (rule assms(2))
next
  fix s k s' assume "I s" "loop_body c j s = Inl (k, s')"
  then have "I s'" by (rule assms(3))
  then show "I (snd (k, s'))" by simp
next
  fix s assume "I s"
  then show "I (snd (Loop_exit, s))" by simp
qed

lemma zero_offdiag_diag: "m01 (zero_offdiag b) = 0 \<and> m10 (zero_offdiag b) = 0"
  by (cases b) simp

lemma gains_of_phases_diagonal: "diagonal_gains (gains_of_phases ph)"
  by (auto simp: diagonal_gains_def gains_of_phases_def elems3_map3 zero_offdiag_diag)

lemma solver_loop_diagonal:
  "diagonal_gains (st_gains s) \<Longrightarrow> diagonal_gains (st_gains (snd (solver_loop c j s)))"
proof (rule solver_loop_inv [where I = "\<lambda>s. diagonal_gains (st_gains s)"])
  fix s s' assume "loop_body c j s = Inr s'"
  then show "diagonal_gains (st_gains s')"
    using loop_body_Inr [of c j s s'] gains_of_phases_diagonal by auto
next
  fix s k s' assume "loop_body c j s = Inl (k, s')"
  then show "diagonal_gains (st_gains s')"
    using loop_body_Inl [of c j s k s'] gains_of_phases_diagonal by auto
qed

lemma full_pol_phase_only_Inr:
  "full_pol_phase_only m ob dg mi tol ci = Inr g \<Longrightarrow>
   g = st_gains (snd (run_solver \<lparr>cfg_model_arr = m, cfg_obser_arr = ob, cfg_min_delta_g = dg,
                        cfg_maxiter = mi, cfg_chi_tol = tol, cfg_chi_interval = ci\<rparr>))"
  by (cases "run_solver \<lparr>cfg_model_arr = m, cfg_obser_arr = ob, cfg_min_delta_g = dg,
                        cfg_maxiter = mi, cfg_chi_tol = tol, cfg_chi_interval = ci\<rparr>")
     (simp add: full_pol_phase_only_def split: exit_kind.splits)

section \<open>Diagonal gains\<close>

text \<open>
  Claim C5. The gains computed from any phases are diagonal, so are the gains of the
  initial state, and so are the gains that \<open>full_pol_phase_only\<close> returns, whichever
  return statement ends the call.
\<close>

theorem gains_always_diagonal:
  "diagonal_gains (gains_of_phases ph) \<and>
   diagonal_gains (st_gains (initial_state model_arr)) \<and>
   (full_pol_phase_only model_arr obser_arr min_delta_g maxiter chi_tol chi_interval = Inr g
      \<longrightarrow> diagonal_gains g)"
proof -
  have "diagonal_gains g"
    if "full_pol_phase_only model_arr obser_arr min_delta_g maxiter chi_tol chi_interval = Inr g"
    using full_pol_phase_only_Inr [OF that]
    by (simp add: run_solver_def solver_loop_diagonal initial_state_simps gains_of_phases_diagonal)
  then show ?thesis
    by (simp add: gains_of_phases_diagonal initial_state_simps)
qed

lemma relax_fact_nat: "0 \<le> i \<Longrightarrow> relax_fact i = (if even (nat i) then 1/2 else 1)"
  by (simp add: relax_fact_def even_nat_iff flip: even_iff_mod_2_eq_zero)

lemma schedule_step:
  assumes "0 \<le> i" "fs = map (\<lambda>k. if even k then 1/2 else (1::real)) [0..<nat i]"
  shows "fs @ [relax_fact i] = map (\<lambda>k. if even k then 1/2 else 1) [0..<nat (i + 1)]"
proof -
  have "nat (i + 1) = Suc (nat i)" using assms(1) by simp
  then show ?thesis using assms by (simp add: relax_fact_nat)
qed

text \<open>The history of \<^verbatim>\<open>fact\<close> at the end of a run.\<close>

lemma fact_history:
  "st_facts (snd (run_solver c)) =
     map (\<lambda>k. if even k then 1/2 else 1) [0..<nat (st_iters (snd (run_solver c)))]"
proof -
  have "0 \<le> st_iters (snd (run_solver c)) \<and> st_facts (snd (run_solver c)) =
     map (\<lambda>k. if even k then 1/2 else 1) [0..<nat (st_iters (snd (run_solver c)))]"
    unfolding run_solver_def
  proof (rule solver_loop_inv [where I = "\<lambda>s. 0 \<le> st_iters s \<and> st_facts s =
       map (\<lambda>k. if even k then 1/2 else 1) [0..<nat (st_iters s)]"])
    show "0 \<le> st_iters (initial_state (cfg_model_arr c)) \<and>
          st_facts (initial_state (cfg_model_arr c)) =
          map (\<lambda>k. if even k then 1/2 else 1) [0..<nat (st_iters (initial_state (cfg_model_arr c)))]"
      by (simp add: initial_state_simps)
  next
    fix s s'
    assume "0 \<le> st_iters s \<and> st_facts s = map (\<lambda>k. if even k then 1/2 else 1) [0..<nat (st_iters s)]"
      and "loop_body c (compute_jhjinv (cfg_model_arr c)) s = Inr s'"
    then show "0 \<le> st_iters s' \<and> st_facts s' = map (\<lambda>k. if even k then 1/2 else 1) [0..<nat (st_iters s')]"
      using loop_body_Inr [of c _ s s'] schedule_step [of "st_iters s" "st_facts s"] by simp
  next
    fix s k s'
    assume "0 \<le> st_iters s \<and> st_facts s = map (\<lambda>k. if even k then 1/2 else 1) [0..<nat (st_iters s)]"
      and "loop_body c (compute_jhjinv (cfg_model_arr c)) s = Inl (k, s')"
    then show "0 \<le> st_iters s' \<and> st_facts s' = map (\<lambda>k. if even k then 1/2 else 1) [0..<nat (st_iters s')]"
      using loop_body_Inl [of c _ s k s'] schedule_step [of "st_iters s" "st_facts s"] by simp
  qed
  then show ?thesis by simp
qed

lemma printed_iff_bad:
  "st_printed (snd (run_solver c)) =
     (if fst (run_solver c) = Bad_solutions_return then [''Bad solutions.''] else [])"
  unfolding run_solver_def
proof (rule solver_loop_rule [where I = "\<lambda>s. st_printed s = []"
      and Q = "\<lambda>r. st_printed (snd r) = (if fst r = Bad_solutions_return then [''Bad solutions.''] else [])"])
  show "st_printed (initial_state (cfg_model_arr c)) = []" by (simp add: initial_state_simps)
next
  fix s s' assume "st_printed s = []" "loop_body c (compute_jhjinv (cfg_model_arr c)) s = Inr s'"
  then show "st_printed s' = []" using loop_body_Inr [of c _ s s'] by simp
next
  fix s k s' assume "st_printed s = []" "loop_body c (compute_jhjinv (cfg_model_arr c)) s = Inl (k, s')"
  then show "st_printed (snd (k, s')) = (if fst (k, s') = Bad_solutions_return then [''Bad solutions.''] else [])"
    using loop_body_Inl [of c _ s k s'] by simp
next
  fix s assume "st_printed s = []"
  then show "st_printed (snd (Loop_exit, s)) = (if fst (Loop_exit, s) = Bad_solutions_return then [''Bad solutions.''] else [])"
    by simp
qed

lemma bad_solutions_unreachable:
  assumes "0 \<le> cfg_chi_tol c"
  shows "fst (run_solver c) \<noteq> Bad_solutions_return"
  unfolding run_solver_def
proof (rule solver_loop_rule [where I = "\<lambda>s. True" and Q = "\<lambda>r. fst r \<noteq> Bad_solutions_return"])
  fix s k s' assume "loop_body c (compute_jhjinv (cfg_model_arr c)) s = Inl (k, s')"
  then show "fst (k, s') \<noteq> Bad_solutions_return"
    using loop_body_no_bad [OF assms] by simp
qed simp_all

section \<open>Entering the loop\<close>

text \<open>
  Claim C9, as amended. The first test of the loop condition compares the initial value
  \<^verbatim>\<open>delta_g = 1\<close> with \<^verbatim>\<open>min_delta_g\<close>. When \<^verbatim>\<open>min_delta_g < 1\<close> at least one
  pass through the body is made; when \<^verbatim>\<open>min_delta_g >= 1\<close> no pass is made and the
  call ends at the return after the loop, in its initial state.
\<close>

theorem loop_entry:
  "(cfg_min_delta_g c < 1 \<longrightarrow> 1 \<le> st_iters (snd (run_solver c))) \<and>
   (1 \<le> cfg_min_delta_g c \<longrightarrow> run_solver c = (Loop_exit, initial_state (cfg_model_arr c)))"
proof -
  let ?j = "compute_jhjinv (cfg_model_arr c)"
  let ?s0 = "initial_state (cfg_model_arr c)"
  have ge: "1 \<le> st_iters s \<Longrightarrow> 1 \<le> st_iters (snd (solver_loop c ?j s))" for s
  proof (rule solver_loop_inv [where I = "\<lambda>s. 1 \<le> st_iters s"])
    fix s s' assume "1 \<le> st_iters s" "loop_body c ?j s = Inr s'"
    then show "1 \<le> st_iters s'" using loop_body_Inr [of c ?j s s'] by simp
  next
    fix s k s' assume "1 \<le> st_iters s" "loop_body c ?j s = Inl (k, s')"
    then show "1 \<le> st_iters s'" using loop_body_Inl [of c ?j s k s'] by simp
  qed
  have enter: "1 \<le> st_iters (snd (run_solver c))" if lt: "cfg_min_delta_g c < 1"
  proof (cases "loop_body c ?j ?s0")
    case (Inl r)
    then have "st_iters (snd r) = 1"
      using loop_body_Inl [of c ?j ?s0 "fst r" "snd r"] by (simp add: initial_state_simps)
    then show ?thesis
      unfolding run_solver_def
      using lt by (simp add: solver_loop_Inl [OF _ Inl] initial_state_simps)
  next
    case (Inr s')
    then have "st_iters s' = 1"
      using loop_body_Inr [of c ?j ?s0 s'] by (simp add: initial_state_simps)
    then have "1 \<le> st_iters (snd (solver_loop c ?j s'))" using ge by simp
    then show ?thesis
      unfolding run_solver_def
      using lt by (simp add: solver_loop_Inr [OF _ Inr] initial_state_simps)
  qed
  have skip: "run_solver c = (Loop_exit, ?s0)" if "1 \<le> cfg_min_delta_g c"
    unfolding run_solver_def
    using that by (simp add: solver_loop_exit initial_state_simps)
  show ?thesis using enter skip by blast
qed

section \<open>Runs on concrete inputs\<close>

lemmas kernel_defs =
  compute_update_def compute_jhr_def compute_jhjinv_def summed_norm_def compute_residual_def
  gmgh_def cells2_def map3_def elems3_def elems4_def left_mul_def right_mul_def right_mul_t_def
  sum_blocks_def sum_axis_def jhr_block_def spec_eye_def conj22_def abs_sq_def to_norm_def
  masked_recip_def norm_blocks_def gains_of_phases_def zero_phases_def exp_phase_def
  relax_fact_def

lemma jhjinv_zero_vis: "compute_jhjinv zero_vis = [[[M22 0 0 0 0]]]"
  by (simp add: kernel_defs zero_vis_def)

lemma gains_zero_phases: "gains_of_phases [[[V2 0 0]]] = [[[M22 1 0 0 1]]]"
  by (simp add: kernel_defs)

lemma initial_zero_vis:
  "initial_state zero_vis =
     \<lparr>st_phases = [[[V2 0 0]]], st_gains = [[[M22 1 0 0 1]]], st_delta_g = 1, st_iters = 0,
      st_chi = PInf, st_old_chi = None, st_printed = [], st_facts = []\<rparr>"
  by (simp add: initial_state_def zero_vis_def kernel_defs)

lemma update_zero_vis:
  "compute_update zero_vis zero_vis [[[M22 1 0 0 1]]] [[[M22 0 0 0 0]]] = [[[V2 0 0]]]"
  by (simp add: kernel_defs zero_vis_def)

lemma residual_zero_vis:
  "norm_blocks (elems4 (compute_residual zero_vis zero_vis [[[M22 1 0 0 1]]])) = 0"
  by (simp add: kernel_defs zero_vis_def)

lemma delta_zero: "norm_blocks (elems3 (cells2 (map2 sub22) [[[M22 1 0 0 1]]] [[[M22 1 0 0 1]]])) = 0"
  by (simp add: kernel_defs)

lemma phases_zero_step: "cells2 (map2 (add_scaled f)) [[[V2 0 0]]] [[[V2 0 0]]] = [[[V2 0 0]]]"
  by (simp add: cells2_def)

lemma cap_run:
  "run_solver cap_config =
     (Maxiter_return,
      \<lparr>st_phases = [[[V2 0 0]]], st_gains = [[[M22 1 0 0 1]]], st_delta_g = 1, st_iters = 1,
       st_chi = PInf, st_old_chi = None, st_printed = [], st_facts = [1/2]\<rparr>)"
proof -
  have b: "loop_body cap_config [[[M22 0 0 0 0]]] (initial_state zero_vis) =
     Inl (Maxiter_return,
      \<lparr>st_phases = [[[V2 0 0]]], st_gains = [[[M22 1 0 0 1]]], st_delta_g = 1, st_iters = 1,
       st_chi = PInf, st_old_chi = None, st_printed = [], st_facts = [1/2]\<rparr>)"
    by (simp add: loop_body_def Let_def cap_config_def initial_zero_vis update_zero_vis
          gains_zero_phases phases_zero_step relax_fact_def)
  have lt: "cfg_min_delta_g cap_config < st_delta_g (initial_state zero_vis)"
    by (simp add: cap_config_def initial_zero_vis)
  show ?thesis
    using solver_loop_Inl [OF lt b]
    by (simp add: run_solver_def jhjinv_zero_vis cap_config_def)
qed


lemma check_run:
  "run_solver check_config =
     (Chi_tol_return,
      \<lparr>st_phases = [[[V2 0 0]]], st_gains = [[[M22 1 0 0 1]]], st_delta_g = 0, st_iters = 2,
       st_chi = Fin 0, st_old_chi = Some (Fin 0), st_printed = [], st_facts = [1/2, 1]\<rparr>)"
proof -
  let ?s1 = "\<lparr>st_phases = [[[V2 0 0]]], st_gains = [[[M22 1 0 0 1]]], st_delta_g = 0, st_iters = 1,
       st_chi = Fin 0, st_old_chi = Some PInf, st_printed = [], st_facts = [1/2]\<rparr>"
  let ?s2 = "\<lparr>st_phases = [[[V2 0 0]]], st_gains = [[[M22 1 0 0 1]]], st_delta_g = 0, st_iters = 2,
       st_chi = Fin 0, st_old_chi = Some (Fin 0), st_printed = [], st_facts = [1/2, 1]\<rparr>"
  have b1: "loop_body check_config [[[M22 0 0 0 0]]] (initial_state zero_vis) = Inr ?s1"
    by (simp add: loop_body_def Let_def check_config_def initial_zero_vis update_zero_vis
          gains_zero_phases phases_zero_step relax_fact_def residual_zero_vis delta_zero)
  have b2: "loop_body check_config [[[M22 0 0 0 0]]] ?s1 = Inl (Chi_tol_return, ?s2)"
    by (simp add: loop_body_def Let_def check_config_def update_zero_vis
          gains_zero_phases phases_zero_step relax_fact_def residual_zero_vis)
  have lt1: "cfg_min_delta_g check_config < st_delta_g (initial_state zero_vis)"
    by (simp add: check_config_def initial_zero_vis)
  have lt2: "cfg_min_delta_g check_config < st_delta_g ?s1"
    by (simp add: check_config_def)
  show ?thesis
    using solver_loop_Inr [OF lt1 b1] solver_loop_Inl [OF lt2 b2]
    by (simp add: run_solver_def jhjinv_zero_vis check_config_def)
qed

lemma skip_run: "run_solver skip_config = (Loop_exit, initial_state zero_vis)"
  by (simp add: run_solver_def solver_loop_exit skip_config_def initial_state_def)

theorem iteration_cap_witness:
  "0 \<le> cfg_maxiter cap_config \<and> cfg_maxiter cap_config = 0 \<and> cfg_min_delta_g cap_config < 1 \<and>
   fst (run_solver cap_config) = Maxiter_return \<and> st_iters (snd (run_solver cap_config)) = 1"
  using iteration_cap [of cap_config] by (simp add: cap_config_def)

theorem gains_always_diagonal_witness:
  "full_pol_phase_only zero_vis zero_vis (1/1000) 0 (1/1000000) 5 = Inr [[[M22 1 0 0 1]]] \<and>
   diagonal_gains [[[M22 1 0 0 1]]]"
proof -
  have r: "full_pol_phase_only zero_vis zero_vis (1/1000) 0 (1/1000000) 5 = Inr [[[M22 1 0 0 1]]]"
    using cap_run by (simp add: full_pol_phase_only_def cap_config_def)
  show ?thesis
    using r gains_always_diagonal [of "[[[V2 0 0]]]" zero_vis zero_vis "1/1000" 0 "1/1000000" 5
                                      "[[[M22 1 0 0 1]]]"]
    by simp
qed

theorem loop_entry_witness:
  "cfg_min_delta_g cap_config < 1 \<and> 1 \<le> st_iters (snd (run_solver cap_config)) \<and>
   1 \<le> cfg_min_delta_g skip_config \<and> run_solver skip_config = (Loop_exit, initial_state zero_vis)"
  using loop_entry [of cap_config] loop_entry [of skip_config]
  by (simp add: cap_config_def skip_config_def)

theorem loop_entry_counterexample:
  "\<not> 1 \<le> st_iters (snd (run_solver skip_config))"
  by (simp add: skip_run initial_state_def)

lemma config_eta:
  "\<lparr>cfg_model_arr = cfg_model_arr c, cfg_obser_arr = cfg_obser_arr c,
    cfg_min_delta_g = cfg_min_delta_g c, cfg_maxiter = cfg_maxiter c,
    cfg_chi_tol = cfg_chi_tol c, cfg_chi_interval = cfg_chi_interval c\<rparr> = c"
  by (cases c) simp

section \<open>What the caller gets\<close>

text \<open>
  Claim C2, as amended. Whenever a call returns, at whichever of its four return
  statements, the value returned is the array of gains and nothing else: the outcome is
  no part of it. A divergence shows only in the output, where the line
  \<^verbatim>\<open>Bad solutions.\<close> is printed exactly by the calls that end at line 172.
\<close>

theorem outcome_not_returned:
  "(fst (run_solver c) \<noteq> Zero_division \<longrightarrow>
      full_pol_phase_only (cfg_model_arr c) (cfg_obser_arr c) (cfg_min_delta_g c) (cfg_maxiter c)
        (cfg_chi_tol c) (cfg_chi_interval c) = Inr (st_gains (snd (run_solver c)))) \<and>
   st_printed (snd (run_solver c)) =
     (if fst (run_solver c) = Bad_solutions_return then [''Bad solutions.''] else [])"
proof -
  have "full_pol_phase_only (cfg_model_arr c) (cfg_obser_arr c) (cfg_min_delta_g c) (cfg_maxiter c)
        (cfg_chi_tol c) (cfg_chi_interval c) = Inr (st_gains (snd (run_solver c)))"
    if "fst (run_solver c) \<noteq> Zero_division"
    using that
    by (cases "run_solver c") (simp add: full_pol_phase_only_def config_eta split: exit_kind.splits)
  then show ?thesis using printed_iff_bad [of c] by simp
qed

theorem outcome_not_returned_witness:
  "fst (run_solver check_config) \<noteq> Zero_division \<and>
   full_pol_phase_only zero_vis zero_vis (- 1) 30 (1/1000000) 1 = Inr [[[M22 1 0 0 1]]] \<and>
   st_printed (snd (run_solver check_config)) = []"
  using outcome_not_returned [of check_config]
  by (simp add: check_run) (simp add: check_config_def)

text \<open>
  A call that ends at the iteration cap and a call that ends at the chi-squared tolerance
  return the same value.
\<close>

theorem outcome_counterexample:
  "fst (run_solver cap_config) = Maxiter_return \<and>
   fst (run_solver check_config) = Chi_tol_return \<and>
   full_pol_phase_only (cfg_model_arr cap_config) (cfg_obser_arr cap_config)
     (cfg_min_delta_g cap_config) (cfg_maxiter cap_config) (cfg_chi_tol cap_config)
     (cfg_chi_interval cap_config) =
   full_pol_phase_only (cfg_model_arr check_config) (cfg_obser_arr check_config)
     (cfg_min_delta_g check_config) (cfg_maxiter check_config) (cfg_chi_tol check_config)
     (cfg_chi_interval check_config)"
proof -
  have a: "full_pol_phase_only (cfg_model_arr cap_config) (cfg_obser_arr cap_config)
     (cfg_min_delta_g cap_config) (cfg_maxiter cap_config) (cfg_chi_tol cap_config)
     (cfg_chi_interval cap_config) = Inr [[[M22 1 0 0 1]]]"
    by (simp add: full_pol_phase_only_def config_eta cap_run)
  have b: "full_pol_phase_only (cfg_model_arr check_config) (cfg_obser_arr check_config)
     (cfg_min_delta_g check_config) (cfg_maxiter check_config) (cfg_chi_tol check_config)
     (cfg_chi_interval check_config) = Inr [[[M22 1 0 0 1]]]"
    by (simp add: full_pol_phase_only_def config_eta check_run)
  show ?thesis using a b by (simp add: cap_run check_run)
qed

section \<open>Observed data of another shape\<close>

text \<open>
  Claim C8, as amended. The solver compares no shapes. It reads \<^verbatim>\<open>obser_arr\<close> for the
  first time inside the loop body, so a call whose loop is not entered
  (\<^verbatim>\<open>min_delta_g >= 1\<close>) returns the gains of zero phase for the model, whatever the
  observed array is.
\<close>

theorem obser_unread_before_loop:
  "1 \<le> min_delta_g \<Longrightarrow>
   full_pol_phase_only model_arr obser_arr min_delta_g maxiter chi_tol chi_interval =
     Inr (gains_of_phases (zero_phases model_arr))"
  by (simp add: full_pol_phase_only_def run_solver_def solver_loop_exit initial_state_def)

theorem obser_unread_before_loop_witness:
  "(1::real) \<le> 2 \<and> full_pol_phase_only zero_vis zero_vis2 2 30 (1/1000000) 5 = Inr [[[M22 1 0 0 1]]]"
  using obser_unread_before_loop [of 2 zero_vis zero_vis2 30 "1/1000000" 5]
  by (simp add: zero_vis_def kernel_defs)

text \<open>
  A model of one antenna and observed data of two antennas: the call returns gains.
\<close>

theorem shape_mismatch_counterexample:
  "map (map length) zero_vis2 \<noteq> map (map length) zero_vis \<and>
   full_pol_phase_only zero_vis zero_vis2 1 30 (1/1000000) 5 = Inr [[[M22 1 0 0 1]]]"
  by (simp add: full_pol_phase_only_def run_solver_def solver_loop_exit initial_state_def
        zero_vis_def zero_vis2_def kernel_defs)

section \<open>A run in which chi-squared increases\<close>

lemma exp_phase_eq: "exp_phase x = Complex (cos x) (- sin x)"
proof -
  have "exp_phase x = cis (- x)"
    by (simp add: exp_phase_def cis_conv_exp)
  then show ?thesis by (simp add: cis.ctr)
qed

lemma bug_jhjinv: "compute_jhjinv bug_model = [[[M22 (1/2) 0 0 0, M22 0 0 0 0]]]"
  by (simp add: compute_jhjinv_def summed_norm_def map3_def bug_model_def sum_axis_def
        abs_sq_def to_norm_def masked_recip_def)

lemma bug_gains:
  "gains_of_phases [[[V2 x 0, V2 0 0]]] = [[[M22 (Complex (cos x) (- sin x)) 0 0 1, M22 1 0 0 1]]]"
  by (simp add: gains_of_phases_def map3_def exp_phase_eq one_complex.code)

lemma bug_update:
  "compute_update bug_model bug_obser [[[M22 (Complex a b) 0 0 1, M22 1 0 0 1]]]
     [[[M22 (1/2) 0 0 0, M22 0 0 0 0]]] = [[[V2 (3 * b - a) 0, V2 0 0]]]"
  by (simp add: compute_update_def compute_jhr_def cells2_def map3_def right_mul_def
        sum_blocks_def jhr_block_def spec_eye_def conj22_def bug_model_def bug_obser_def)

lemma bug_residual:
  "norm_blocks (elems4 (compute_residual bug_obser bug_model
      [[[M22 (Complex a b) 0 0 1, M22 1 0 0 1]]])) = sqrt ((3 - a)\<^sup>2 + (1 - b)\<^sup>2)"
  by (simp add: compute_residual_def gmgh_def cells2_def map3_def left_mul_def right_mul_t_def
        conj22_def norm_blocks_def elems4_def bug_model_def bug_obser_def cmod_def)

lemma bug_delta:
  "norm_blocks (elems3 (cells2 (map2 sub22) [[[M22 (Complex a b) 0 0 1, M22 1 0 0 1]]]
      [[[M22 (Complex a' b') 0 0 1, M22 1 0 0 1]]])) = sqrt ((a - a')\<^sup>2 + (b - b')\<^sup>2)"
  by (simp add: cells2_def norm_blocks_def elems3_def cmod_def)


lemma exp_phase_simps:
  "exp_phase 0 = 1" "Re (exp_phase x) = cos x" "Im (exp_phase x) = - sin x"
  by (simp_all add: exp_phase_eq one_complex.code)

lemma bug_gains': "gains_of_phases [[[V2 x 0, V2 0 0]]] = [[[M22 (exp_phase x) 0 0 1, M22 1 0 0 1]]]"
  by (simp add: bug_gains exp_phase_eq)

lemma bug_update':
  "compute_update bug_model bug_obser [[[M22 g 0 0 1, M22 1 0 0 1]]]
     [[[M22 (1/2) 0 0 0, M22 0 0 0 0]]] = [[[V2 (3 * Im g - Re g) 0, V2 0 0]]]"
  by (cases g) (simp add: bug_update)

lemma bug_residual':
  "norm_blocks (elems4 (compute_residual bug_obser bug_model [[[M22 g 0 0 1, M22 1 0 0 1]]])) =
     sqrt ((3 - Re g)\<^sup>2 + (1 - Im g)\<^sup>2)"
  by (cases g) (simp add: bug_residual)

lemma bug_delta':
  "norm_blocks (elems3 (cells2 (map2 sub22) [[[M22 g 0 0 1, M22 1 0 0 1]]]
      [[[M22 g' 0 0 1, M22 1 0 0 1]]])) = sqrt ((Re g - Re g')\<^sup>2 + (Im g - Im g')\<^sup>2)"
  by (cases g; cases g') (simp add: bug_delta)

lemma bug_phases_step:
  "cells2 (map2 (add_scaled f)) [[[V2 x 0, V2 0 0]]] [[[V2 u 0, V2 0 0]]] =
     [[[V2 (x + f * u) 0, V2 0 0]]]"
  by (simp add: cells2_def)

lemma bug_initial:
  "initial_state bug_model =
     \<lparr>st_phases = [[[V2 0 0, V2 0 0]]], st_gains = [[[M22 1 0 0 1, M22 1 0 0 1]]],
      st_delta_g = 1, st_iters = 0, st_chi = PInf, st_old_chi = None, st_printed = [],
      st_facts = []\<rparr>"
  by (simp add: initial_state_def zero_phases_def map3_def bug_model_def
        bug_gains' [of 0, simplified exp_phase_simps])

lemma bug_pass1:
  "loop_body bug_config [[[M22 (1/2) 0 0 0, M22 0 0 0 0]]] (initial_state bug_model) =
     Inr bug_state1"
  by (simp add: loop_body_def Let_def bug_config_def bug_initial bug_update' bug_phases_step
        bug_gains' bug_residual' bug_delta' exp_phase_simps relax_fact_def bug_state1_def
        chi_at_def)



lemma cos_lower: "1 - x\<^sup>2 / 2 \<le> cos (x::real)"
proof -
  have "cos x = 1 - 2 * (sin (x/2))\<^sup>2"
    using cos_double_sin [of "x/2"] by simp
  moreover have "(sin (x/2))\<^sup>2 \<le> (x/2)\<^sup>2"
    using abs_sin_x_le_abs_x [of "x/2"] by (simp add: abs_le_square_iff [symmetric])
  ultimately show ?thesis by (simp add: power2_eq_square)
qed

lemma sin_lower:
  assumes "0 \<le> (x::real)"
  shows "x - x^3 / 6 \<le> sin x"
proof -
  let ?f = "\<lambda>x::real. sin x - x + x^3 / 6"
  have d: "\<And>u. 0 \<le> u \<Longrightarrow> u \<le> x \<Longrightarrow> \<exists>y. (?f has_real_derivative y) (at u) \<and> 0 \<le> y"
  proof -
    fix u :: real
    have "(?f has_real_derivative (cos u - 1 + u\<^sup>2 / 2)) (at u)"
      by (auto intro!: derivative_eq_intros simp: field_simps)
    moreover have "0 \<le> cos u - 1 + u\<^sup>2 / 2" using cos_lower [of u] by simp
    ultimately show "\<exists>y. (?f has_real_derivative y) (at u) \<and> 0 \<le> y" by blast
  qed
  have "?f 0 \<le> ?f x"
    by (rule DERIV_nonneg_imp_nondecreasing [OF assms]) (use d in auto)
  then show ?thesis by simp
qed

lemma sin_half_lower: "23/48 \<le> sin (1/2 :: real)"
  using sin_lower [of "1/2"] by (simp add: power3_eq_cube)

lemma sin_half_upper: "sin (1/2 :: real) \<le> 1/2"
  using sin_x_le_x [of "1/2"] by simp

lemma cos_half_lower: "7/8 \<le> cos (1/2 :: real)"
  using cos_lower [of "1/2"] by (simp add: power2_eq_square)

lemma cos_half_upper: "cos (1/2 :: real) \<le> 8/9"
proof -
  have s: "95/384 \<le> sin (1/4 :: real)"
    using sin_lower [of "1/4"] by (simp add: power3_eq_cube)
  have "(95/384)\<^sup>2 \<le> (sin (1/4 :: real))\<^sup>2"
    using s by (intro power_mono) simp_all
  moreover have "cos (1/2 :: real) = 1 - 2 * (sin (1/4))\<^sup>2"
    using cos_double_sin [of "1/4 :: real"] by simp
  ultimately show ?thesis by (simp add: power2_eq_square)
qed


lemma bug_phi2_bounds: "0 \<le> bug_phi2 \<and> bug_phi2 \<le> 1"
  using sin_half_lower sin_half_upper cos_half_lower cos_half_upper
  by (simp add: bug_phi2_def)

lemma chi_sq: "(3 - cos x)\<^sup>2 + (1 + sin x)\<^sup>2 = 11 - 6 * cos x + 2 * sin (x::real)"
proof -
  have "(3 - cos x)\<^sup>2 + (1 + sin x)\<^sup>2 = 10 - 6 * cos x + 2 * sin x + ((sin x)\<^sup>2 + (cos x)\<^sup>2)"
    by (simp add: power2_eq_square algebra_simps)
  then show ?thesis by simp
qed

lemma chi_rise:
  "sqrt ((3 - cos (1/2))\<^sup>2 + (1 - sin (1/2))\<^sup>2) <
   sqrt ((3 - cos bug_phi2)\<^sup>2 + (1 + sin bug_phi2)\<^sup>2)"
proof -
  have s0: "0 \<le> sin bug_phi2"
    using bug_phi2_bounds pi_ge_two by (intro sin_ge_zero) simp_all
  have c1: "cos bug_phi2 \<le> 1" by (rule cos_le_one)
  have a: "(3 - cos (1/2))\<^sup>2 + (1 - sin (1/2))\<^sup>2 = 11 - 6 * cos (1/2) - 2 * sin (1/2 :: real)"
    using chi_sq [of "- (1/2)"] by simp
  have b: "11 - 6 * cos (1/2) - 2 * sin (1/2 :: real) < 11 - 6 * cos bug_phi2 + 2 * sin bug_phi2"
    using s0 c1 sin_half_lower cos_half_lower by linarith
  show ?thesis
    using a b by (simp add: chi_sq)
qed

lemma bug_delta_large: "1/1000 < sqrt ((1 - cos (1/2))\<^sup>2 + (sin (1/2 :: real))\<^sup>2)"
proof -
  have "sin (1/2 :: real) \<le> sqrt ((1 - cos (1/2))\<^sup>2 + (sin (1/2))\<^sup>2)"
    by (rule real_le_rsqrt) simp
  then show ?thesis using sin_half_lower by linarith
qed

lemma bug_pass2:
  "loop_body bug_config [[[M22 (1/2) 0 0 0, M22 0 0 0 0]]] bug_state1 =
     Inl (Chi_tol_return, bug_state2)"
proof -
  have u: "compute_update bug_model bug_obser [[[M22 (exp_phase (- (1/2))) 0 0 1, M22 1 0 0 1]]]
             [[[M22 (1/2) 0 0 0, M22 0 0 0 0]]] = [[[V2 (3 * sin (1/2) - cos (1/2)) 0, V2 0 0]]]"
    by (simp add: bug_update' exp_phase_simps)
  have ph: "cells2 (map2 (add_scaled 1)) [[[V2 (- (1/2)) 0, V2 0 0]]]
              [[[V2 (3 * sin (1/2) - cos (1/2)) 0, V2 0 0]]] = [[[V2 bug_phi2 0, V2 0 0]]]"
    by (simp add: bug_phases_step bug_phi2_def)
  have r: "sqrt ((3 - cos (1/2))\<^sup>2 + (1 - sin (1/2))\<^sup>2) -
           sqrt ((3 - cos bug_phi2)\<^sup>2 + (1 + sin bug_phi2)\<^sup>2) < 1/1000000"
    using chi_rise by linarith
  show ?thesis
    using r
    by (simp add: loop_body_def Let_def bug_config_def bug_state1_def bug_state2_def u ph
          bug_gains' bug_residual' exp_phase_simps relax_fact_def chi_at_def)
qed

text \<open>
  Claim C1 says that a chi-squared check at which \<^verbatim>\<open>old_chi < chi\<close> ends the call at
  line 172, with the diagnostic printed. The test \<^verbatim>\<open>(old_chi - chi) < chi_tol\<close> of line
  168 comes first and holds whenever \<^verbatim>\<open>old_chi < chi\<close> and \<^verbatim>\<open>chi_tol >= 0\<close> (lemma
  \<open>bad_solutions_unreachable\<close>). The run below makes two passes; at its second check
  chi-squared has increased, and the call ends at line 169 with nothing printed.
\<close>

theorem divergence_not_reported:
  "fst (run_solver bug_config) = Chi_tol_return \<and>
   chi_rose (snd (run_solver bug_config)) \<and>
   st_printed (snd (run_solver bug_config)) = [] \<and>
   st_iters (snd (run_solver bug_config)) = 2"
proof -
  have lt1: "cfg_min_delta_g bug_config < st_delta_g (initial_state bug_model)"
    by (simp add: bug_config_def bug_initial)
  have lt2: "cfg_min_delta_g bug_config < st_delta_g bug_state1"
    using bug_delta_large by (simp add: bug_config_def bug_state1_def)
  have run: "run_solver bug_config = (Chi_tol_return, bug_state2)"
    using solver_loop_Inr [OF lt1 bug_pass1] solver_loop_Inl [OF lt2 bug_pass2]
    by (simp add: run_solver_def bug_jhjinv bug_config_def)
  have rose: "chi_rose bug_state2"
    using chi_rise by (simp add: chi_rose_def bug_state2_def chi_at_def)
  show ?thesis using rose by (simp add: run bug_state2_def)
qed

lemma diverged_pass1:
  "loop_body diverged_config [[[M22 (1/2) 0 0 0, M22 0 0 0 0]]] (initial_state bug_model) =
     Inr bug_state1"
  by (simp add: loop_body_def Let_def diverged_config_def bug_config_def bug_initial bug_update'
        bug_phases_step bug_gains' bug_residual' bug_delta' exp_phase_simps relax_fact_def
        bug_state1_def chi_at_def)

lemma capped_pass1:
  "loop_body capped_config [[[M22 (1/2) 0 0 0, M22 0 0 0 0]]] (initial_state bug_model) =
     Inr bug_state1"
  by (simp add: loop_body_def Let_def capped_config_def bug_config_def bug_initial bug_update'
        bug_phases_step bug_gains' bug_residual' bug_delta' exp_phase_simps relax_fact_def
        bug_state1_def chi_at_def)

lemma bug_update2:
  "compute_update bug_model bug_obser [[[M22 (exp_phase (- (1/2))) 0 0 1, M22 1 0 0 1]]]
     [[[M22 (1/2) 0 0 0, M22 0 0 0 0]]] = [[[V2 (3 * sin (1/2) - cos (1/2)) 0, V2 0 0]]]"
  by (simp add: bug_update' exp_phase_simps)

lemma bug_phases2:
  "cells2 (map2 (add_scaled 1)) [[[V2 (- (1/2)) 0, V2 0 0]]]
     [[[V2 (3 * sin (1/2) - cos (1/2)) 0, V2 0 0]]] = [[[V2 bug_phi2 0, V2 0 0]]]"
  by (simp add: bug_phases_step bug_phi2_def)

lemma chi2_small: "sqrt ((3 - cos bug_phi2)\<^sup>2 + (1 + sin bug_phi2)\<^sup>2) \<le> 100"
proof (rule real_le_lsqrt)
  have "11 - 6 * cos bug_phi2 + 2 * sin bug_phi2 \<le> 19"
    using cos_ge_minus_one [of bug_phi2] sin_le_one [of bug_phi2] by linarith
  then show "(3 - cos bug_phi2)\<^sup>2 + (1 + sin bug_phi2)\<^sup>2 \<le> 100\<^sup>2"
    by (simp add: chi_sq)
qed simp_all

lemma diverged_pass2:
  "loop_body diverged_config [[[M22 (1/2) 0 0 0, M22 0 0 0 0]]] bug_state1 =
     Inl (Bad_solutions_return, bug_state2\<lparr>st_printed := [''Bad solutions.'']\<rparr>)"
proof -
  have "0 \<le> sqrt ((3 - cos (1/2))\<^sup>2 + (1 - sin (1/2 :: real))\<^sup>2)" by simp
  then have r: "\<not> sqrt ((3 - cos (1/2))\<^sup>2 + (1 - sin (1/2))\<^sup>2) -
           sqrt ((3 - cos bug_phi2)\<^sup>2 + (1 + sin bug_phi2)\<^sup>2) < - 100"
    using chi2_small by linarith
  show ?thesis
    using r chi_rise
    by (simp add: loop_body_def Let_def diverged_config_def bug_config_def bug_state1_def
          bug_state2_def bug_update2 bug_phases2 bug_gains' bug_residual' exp_phase_simps
          relax_fact_def chi_at_def)
qed

lemma capped_pass2:
  "loop_body capped_config [[[M22 (1/2) 0 0 0, M22 0 0 0 0]]] bug_state1 =
     Inl (Maxiter_return,
          bug_state1\<lparr>st_phases := [[[V2 bug_phi2 0, V2 0 0]]],
                      st_gains := [[[M22 (exp_phase bug_phi2) 0 0 1, M22 1 0 0 1]]],
                      st_iters := 2, st_facts := [1/2, 1]\<rparr>)"
  by (simp add: loop_body_def Let_def capped_config_def bug_config_def bug_state1_def
        bug_update2 bug_phases2 bug_gains' relax_fact_def)

text \<open>
  With a negative tolerance the same input reaches line 172: the diagnostic is printed,
  and the value returned is the one that the call with \<^verbatim>\<open>maxiter=1\<close> returns from
  the iteration cap.
\<close>

theorem divergence_indistinguishable:
  "fst (run_solver diverged_config) = Bad_solutions_return \<and>
   st_printed (snd (run_solver diverged_config)) = [''Bad solutions.''] \<and>
   fst (run_solver capped_config) = Maxiter_return \<and>
   full_pol_phase_only bug_model bug_obser (1/1000) 30 (- 100) 1 =
   full_pol_phase_only bug_model bug_obser (1/1000) 1 (1/1000000) 1"
proof -
  have d1: "cfg_min_delta_g diverged_config < st_delta_g (initial_state bug_model)"
    by (simp add: diverged_config_def bug_config_def bug_initial)
  have d2: "cfg_min_delta_g diverged_config < st_delta_g bug_state1"
    using bug_delta_large by (simp add: diverged_config_def bug_config_def bug_state1_def)
  have c1: "cfg_min_delta_g capped_config < st_delta_g (initial_state bug_model)"
    by (simp add: capped_config_def bug_config_def bug_initial)
  have c2: "cfg_min_delta_g capped_config < st_delta_g bug_state1"
    using bug_delta_large by (simp add: capped_config_def bug_config_def bug_state1_def)
  have rd: "run_solver diverged_config =
              (Bad_solutions_return, bug_state2\<lparr>st_printed := [''Bad solutions.'']\<rparr>)"
    using solver_loop_Inr [OF d1 diverged_pass1] solver_loop_Inl [OF d2 diverged_pass2]
    by (simp add: run_solver_def bug_jhjinv diverged_config_def bug_config_def)
  have rc: "run_solver capped_config =
              (Maxiter_return,
               bug_state1\<lparr>st_phases := [[[V2 bug_phi2 0, V2 0 0]]],
                           st_gains := [[[M22 (exp_phase bug_phi2) 0 0 1, M22 1 0 0 1]]],
                           st_iters := 2, st_facts := [1/2, 1]\<rparr>)"
    using solver_loop_Inr [OF c1 capped_pass1] solver_loop_Inl [OF c2 capped_pass2]
    by (simp add: run_solver_def bug_jhjinv capped_config_def bug_config_def)
  have fd: "full_pol_phase_only bug_model bug_obser (1/1000) 30 (- 100) 1 =
              Inr [[[M22 (exp_phase bug_phi2) 0 0 1, M22 1 0 0 1]]]"
    using rd by (simp add: full_pol_phase_only_def diverged_config_def bug_config_def bug_state2_def)
  have fc: "full_pol_phase_only bug_model bug_obser (1/1000) 1 (1/1000000) 1 =
              Inr [[[M22 (exp_phase bug_phi2) 0 0 1, M22 1 0 0 1]]]"
    using rc by (simp add: full_pol_phase_only_def capped_config_def bug_config_def bug_state1_def)
  show ?thesis by (simp add: rd rc fd fc)
qed

section \<open>The relaxation factor in the phase update\<close>

lemma state_after_iters: "state_after c k = Some s \<Longrightarrow> st_iters s = int k"
proof (induction k arbitrary: s)
  case 0
  then show ?case by (auto simp: initial_state_simps)
next
  case (Suc k)
  from Suc.prems obtain s0 where s0: "state_after c k = Some s0"
    and b: "loop_body c (compute_jhjinv (cfg_model_arr c)) s0 = Inr s"
    by (auto split: option.splits if_splits sum.splits)
  have "st_iters s0 = int k" using Suc.IH s0 by simp
  then show ?case using loop_body_Inr [OF b] by simp
qed

lemma pass_phases:
  "st_phases (pass_state (loop_body c j s)) =
     cells2 (map2 (add_scaled (relax_fact (st_iters s)))) (st_phases s)
       (compute_update (cfg_model_arr c) (cfg_obser_arr c) (st_gains s) j) \<and>
   st_gains (pass_state (loop_body c j s)) =
     gains_of_phases (st_phases (pass_state (loop_body c j s)))"
  by (simp add: loop_body_def Let_def pass_state_def)

lemma run_made_of_passes:
  "\<exists>k s. state_after c k = Some s \<and>
     (snd (run_solver c) = s \<or>
      cfg_min_delta_g c < st_delta_g s \<and>
      snd (run_solver c) = pass_state (loop_body c (compute_jhjinv (cfg_model_arr c)) s))"
  unfolding run_solver_def
proof (rule solver_loop_rule [where I = "\<lambda>s. \<exists>k. state_after c k = Some s"
      and Q = "\<lambda>r. \<exists>k s. state_after c k = Some s \<and>
     (snd r = s \<or> cfg_min_delta_g c < st_delta_g s \<and>
      snd r = pass_state (loop_body c (compute_jhjinv (cfg_model_arr c)) s))"])
  show "\<exists>k. state_after c k = Some (initial_state (cfg_model_arr c))"
    by (rule exI [of _ 0]) simp
next
  fix s s'
  assume "\<exists>k. state_after c k = Some s" and lt: "cfg_min_delta_g c < st_delta_g s"
    and b: "loop_body c (compute_jhjinv (cfg_model_arr c)) s = Inr s'"
  then obtain k where "state_after c k = Some s" by blast
  then have "state_after c (Suc k) = Some s'" using lt b by simp
  then show "\<exists>k. state_after c k = Some s'" by blast
next
  fix s k s'
  assume "\<exists>k. state_after c k = Some s" and lt: "cfg_min_delta_g c < st_delta_g s"
    and b: "loop_body c (compute_jhjinv (cfg_model_arr c)) s = Inl (k, s')"
  then obtain n where n: "state_after c n = Some s" by blast
  have "snd (k, s') = pass_state (loop_body c (compute_jhjinv (cfg_model_arr c)) s)"
    using b by (simp add: pass_state_def)
  then show "\<exists>n s0. state_after c n = Some s0 \<and>
     (snd (k, s') = s0 \<or> cfg_min_delta_g c < st_delta_g s0 \<and>
      snd (k, s') = pass_state (loop_body c (compute_jhjinv (cfg_model_arr c)) s0))"
    using n lt by blast
next
  fix s
  assume "\<exists>k. state_after c k = Some s"
  then show "\<exists>k s0. state_after c k = Some s0 \<and>
     (snd (Loop_exit, s) = s0 \<or> cfg_min_delta_g c < st_delta_g s0 \<and>
      snd (Loop_exit, s) = pass_state (loop_body c (compute_jhjinv (cfg_model_arr c)) s0))"
    by auto
qed

text \<open>
  Claim C6. In the pass number \<open>k\<close> of a run, counted from 0, the phases become the
  phases before the pass plus the update of the pass multiplied by 0.5 when \<open>k\<close> is even
  and by 1 when \<open>k\<close> is odd, and the gains of the pass are computed from these phases.
  Every run is made of such passes: it ends in the state of one of its tests of the loop
  condition or in the state in which the pass begun there ends. The values that
  \<^verbatim>\<open>fact\<close> has taken at the end of a run are 0.5, 1, 0.5, ..., one for each pass made.
\<close>

theorem relaxation_schedule:
  "(state_after c k = Some s \<longrightarrow>
      st_iters s = int k \<and>
      st_phases (pass_state (loop_body c (compute_jhjinv (cfg_model_arr c)) s)) =
        cells2 (map2 (add_scaled (if even k then 1/2 else 1))) (st_phases s)
          (compute_update (cfg_model_arr c) (cfg_obser_arr c) (st_gains s)
             (compute_jhjinv (cfg_model_arr c))) \<and>
      st_gains (pass_state (loop_body c (compute_jhjinv (cfg_model_arr c)) s)) =
        gains_of_phases (st_phases (pass_state (loop_body c (compute_jhjinv (cfg_model_arr c)) s)))) \<and>
   (\<exists>n s0. state_after c n = Some s0 \<and>
      (snd (run_solver c) = s0 \<or>
       cfg_min_delta_g c < st_delta_g s0 \<and>
       snd (run_solver c) = pass_state (loop_body c (compute_jhjinv (cfg_model_arr c)) s0))) \<and>
   st_facts (snd (run_solver c)) =
     map (\<lambda>k. if even k then 1/2 else 1) [0..<nat (st_iters (snd (run_solver c)))]"
proof -
  have a: "st_iters s = int k \<and>
      st_phases (pass_state (loop_body c (compute_jhjinv (cfg_model_arr c)) s)) =
        cells2 (map2 (add_scaled (if even k then 1/2 else 1))) (st_phases s)
          (compute_update (cfg_model_arr c) (cfg_obser_arr c) (st_gains s)
             (compute_jhjinv (cfg_model_arr c))) \<and>
      st_gains (pass_state (loop_body c (compute_jhjinv (cfg_model_arr c)) s)) =
        gains_of_phases (st_phases (pass_state (loop_body c (compute_jhjinv (cfg_model_arr c)) s)))"
    if sa: "state_after c k = Some s"
  proof -
    have i: "st_iters s = int k" using state_after_iters [OF sa] .
    have f: "relax_fact (st_iters s) = (if even k then 1/2 else 1)"
      using i relax_fact_nat [of "st_iters s"] by simp
    show ?thesis
      using i f pass_phases [of c "compute_jhjinv (cfg_model_arr c)" s] by simp
  qed
  show ?thesis
    using a run_made_of_passes [of c] fact_history [of c] by blast
qed


theorem relaxation_schedule_witness:
  "state_after bug_config 0 = Some (initial_state bug_model) \<and>
   st_phases (initial_state bug_model) = [[[V2 0 0, V2 0 0]]] \<and>
   compute_update bug_model bug_obser (st_gains (initial_state bug_model))
     (compute_jhjinv bug_model) = [[[V2 (- 1) 0, V2 0 0]]] \<and>
   state_after bug_config 1 = Some bug_state1 \<and>
   st_phases bug_state1 = [[[V2 (0 + 1/2 * (- 1)) 0, V2 0 0]]] \<and>
   compute_update bug_model bug_obser (st_gains bug_state1) (compute_jhjinv bug_model) =
     [[[V2 (3 * sin (1/2) - cos (1/2)) 0, V2 0 0]]] \<and>
   0 < 3 * sin (1/2) - cos (1/2 :: real) \<and>
   st_phases (pass_state (loop_body bug_config (compute_jhjinv bug_model) bug_state1)) =
     [[[V2 (- (1/2) + 1 * (3 * sin (1/2) - cos (1/2))) 0, V2 0 0]]]"
proof -
  have m: "cfg_model_arr bug_config = bug_model" "cfg_obser_arr bug_config = bug_obser"
    by (simp_all add: bug_config_def)
  have s0: "state_after bug_config 0 = Some (initial_state bug_model)"
    by (simp add: m)
  have lt: "cfg_min_delta_g bug_config < st_delta_g (initial_state bug_model)"
    by (simp add: bug_config_def bug_initial)
  have s1: "state_after bug_config 1 = Some bug_state1"
    using lt bug_pass1 by (simp add: m bug_jhjinv)
  have u0: "compute_update bug_model bug_obser (st_gains (initial_state bug_model))
     (compute_jhjinv bug_model) = [[[V2 (- 1) 0, V2 0 0]]]"
    by (simp add: bug_initial bug_jhjinv bug_update')
  have u1: "compute_update bug_model bug_obser (st_gains bug_state1) (compute_jhjinv bug_model) =
     [[[V2 (3 * sin (1/2) - cos (1/2)) 0, V2 0 0]]]"
    by (simp add: bug_state1_def bug_jhjinv bug_update' exp_phase_simps)
  have pos: "0 < 3 * sin (1/2) - cos (1/2 :: real)"
    using sin_half_lower cos_half_upper by linarith
  have p0: "st_phases (initial_state bug_model) = [[[V2 0 0, V2 0 0]]]"
    by (simp add: bug_initial)
  have p1: "st_phases bug_state1 = [[[V2 (0 + 1/2 * (- 1)) 0, V2 0 0]]]"
    using relaxation_schedule [of bug_config 0 "initial_state bug_model"] s0 u0 p0 bug_pass1
    by (simp add: m bug_jhjinv pass_state_def bug_phases_step)
  have p2: "st_phases (pass_state (loop_body bug_config (compute_jhjinv bug_model) bug_state1)) =
     [[[V2 (- (1/2) + 1 * (3 * sin (1/2) - cos (1/2))) 0, V2 0 0]]]"
    using relaxation_schedule [of bug_config 1 bug_state1] s1 u1 p1
    by (simp add: m bug_phases_step)
  show ?thesis using s0 p0 u0 s1 p1 u1 pos p2 by blast
qed

end
